theory Spec2Isabelle
  imports Complex_Main
begin

section \<open>Numbers\<close>

text \<open>
  A JavaScript \<open>number\<close> is modelled as an exact real or the not-a-number value. Arithmetic
  is exact: rounding, overflow to an infinity and underflow are not part of the model, and
  the two infinities are not values of it. Every operation propagates \<open>NaN\<close> and every
  comparison with \<open>NaN\<close> is false, as in the language. Where a property depends on rounding
  or on the range of the format (the round trip through Kepler's third law, the finiteness
  of the semi-major axis), the functions are embedded a second time over binary64 values,
  in the section on double-precision arithmetic.
\<close>

datatype jsnum = NaN | Num real

fun isNaN :: "jsnum \<Rightarrow> bool" where
  "isNaN NaN = True"
| "isNaN (Num x) = False"

instantiation jsnum :: "{plus, minus, times, inverse, ord, abs}"
begin

fun plus_jsnum :: "jsnum \<Rightarrow> jsnum \<Rightarrow> jsnum" where
  "plus_jsnum (Num a) (Num b) = Num (a + b)"
| "plus_jsnum _ _ = NaN"

fun minus_jsnum :: "jsnum \<Rightarrow> jsnum \<Rightarrow> jsnum" where
  "minus_jsnum (Num a) (Num b) = Num (a - b)"
| "minus_jsnum _ _ = NaN"

fun times_jsnum :: "jsnum \<Rightarrow> jsnum \<Rightarrow> jsnum" where
  "times_jsnum (Num a) (Num b) = Num (a * b)"
| "times_jsnum _ _ = NaN"

text \<open>
  A quotient by zero is an infinity (or \<open>NaN\<close>) in the language. No division of the functions
  below has a zero divisor: each divisor is a positive constant or is guarded positive.
\<close>

fun divide_jsnum :: "jsnum \<Rightarrow> jsnum \<Rightarrow> jsnum" where
  "divide_jsnum (Num a) (Num b) = (if b = 0 then NaN else Num (a / b))"
| "divide_jsnum _ _ = NaN"

fun inverse_jsnum :: "jsnum \<Rightarrow> jsnum" where
  "inverse_jsnum (Num b) = (if b = 0 then NaN else Num (1 / b))"
| "inverse_jsnum NaN = NaN"

fun abs_jsnum :: "jsnum \<Rightarrow> jsnum" where
  "abs_jsnum (Num a) = Num \<bar>a\<bar>"
| "abs_jsnum NaN = NaN"

fun less_eq_jsnum :: "jsnum \<Rightarrow> jsnum \<Rightarrow> bool" where
  "less_eq_jsnum (Num a) (Num b) = (a \<le> b)"
| "less_eq_jsnum _ _ = False"

fun less_jsnum :: "jsnum \<Rightarrow> jsnum \<Rightarrow> bool" where
  "less_jsnum (Num a) (Num b) = (a < b)"
| "less_jsnum _ _ = False"

instance ..

end

text \<open>\<open>Math.sqrt\<close>, \<open>Math.cbrt\<close> and \<open>Math.pow\<close>.\<close>

fun Math_sqrt :: "jsnum \<Rightarrow> jsnum" where
  "Math_sqrt (Num a) = (if a < 0 then NaN else Num (sqrt a))"
| "Math_sqrt NaN = NaN"

fun Math_cbrt :: "jsnum \<Rightarrow> jsnum" where
  "Math_cbrt (Num a) = Num (root 3 a)"
| "Math_cbrt NaN = NaN"

text \<open>
  \<open>Math.pow\<close>: a zero exponent gives 1 for every base; a negative base has a power only for
  an integral exponent. Zero to a negative power is an infinity in the language; every
  exponent in the source is a positive literal.
\<close>

fun Math_pow :: "jsnum \<Rightarrow> jsnum \<Rightarrow> jsnum" where
  "Math_pow _ NaN = NaN"
| "Math_pow NaN (Num y) = (if y = 0 then Num 1 else NaN)"
| "Math_pow (Num x) (Num y) =
     (if y = 0 then Num 1
      else if 0 < x then Num (x powr y)
      else if x = 0 then (if 0 < y then Num 0 else NaN)
      else if y = of_int \<lfloor>y\<rfloor> then Num (x powi \<lfloor>y\<rfloor>)
      else NaN)"

definition Math_PI :: jsnum where
  "Math_PI = Num pi"

section \<open>Physical constants\<close>

definition G :: real where "G = 667430 / 10 ^ 16"
definition SIGMA_const :: real where "SIGMA_const = 5670374419 / 10 ^ 17"
definition M_SUN :: real where "M_SUN = 198847 * 10 ^ 25"
definition R_SUN :: real where "R_SUN = 6957 * 10 ^ 5"
definition L_SUN :: real where "L_SUN = 3828 * 10 ^ 23"
definition AU :: real where "AU = 1495978707 * 10 ^ 2"
definition M_EARTH :: real where "M_EARTH = 5972 * 10 ^ 21"
definition R_EARTH :: real where "R_EARTH = 6371 * 10 ^ 3"

section \<open>The physics calculation service\<close>

definition calculateSemiMajorAxis :: "jsnum \<Rightarrow> jsnum \<Rightarrow> jsnum" where
  "calculateSemiMajorAxis periodDays starMassSolar =
     (if periodDays \<le> Num 0 \<or> starMassSolar \<le> Num 0 then NaN
      else
        let P = periodDays * Num 24 * Num 3600;
            M = starMassSolar * Num M_SUN;
            a_cubed = Num G * M * P * P / (Num 4 * Math_PI * Math_PI);
            a = Math_cbrt a_cubed
        in a / Num AU)"

definition calculateOrbitalPeriod :: "jsnum \<Rightarrow> jsnum \<Rightarrow> jsnum" where
  "calculateOrbitalPeriod semiMajorAxis starMassSolar =
     (if semiMajorAxis \<le> Num 0 \<or> starMassSolar \<le> Num 0 then NaN
      else
        let a = semiMajorAxis * Num AU;
            M = starMassSolar * Num M_SUN;
            T_squared = (Num 4 * Math_PI * Math_PI * a * a * a) / (Num G * M);
            T = Math_sqrt T_squared
        in T / (Num 24 * Num 3600))"

definition calculateStellarLuminosity :: "jsnum \<Rightarrow> jsnum \<Rightarrow> jsnum" where
  "calculateStellarLuminosity radiusSolar tempK =
     (if radiusSolar \<le> Num 0 \<or> tempK \<le> Num 0 then NaN
      else
        let R = radiusSolar * Num R_SUN;
            L = Num 4 * Math_PI * R * R * Num SIGMA_const * Math_pow tempK (Num 4)
        in L / Num L_SUN)"

definition calculateEquilibriumTemperature ::
  "jsnum \<Rightarrow> jsnum \<Rightarrow> jsnum \<Rightarrow> jsnum \<Rightarrow> jsnum" where
  "calculateEquilibriumTemperature starTemp starRadiusSolar semiMajorAxis albedo =
     (if starTemp \<le> Num 0 \<or> starRadiusSolar \<le> Num 0 \<or> semiMajorAxis \<le> Num 0 then NaN
      else
        let a = semiMajorAxis * Num AU;
            R_star = starRadiusSolar * Num R_SUN;
            term = Math_sqrt (R_star / (Num 2 * a));
            absorption = Math_pow (Num 1 - albedo) (Num (25 / 100))
        in starTemp * term * absorption)"

definition calculateHabitableZone :: "jsnum \<Rightarrow> jsnum \<times> jsnum" where
  "calculateHabitableZone starLuminosity =
     (if starLuminosity \<le> Num 0 then (NaN, NaN)
      else
        let scale = Math_sqrt starLuminosity;
            inner = Num (95 / 100) * scale;
            outer = Num (167 / 100) * scale
        in (inner, outer))"

definition calculateSurfaceGravity :: "jsnum \<Rightarrow> jsnum \<Rightarrow> jsnum" where
  "calculateSurfaceGravity radius mass =
     (if radius \<le> Num 0 \<or> mass \<le> Num 0 then NaN
      else
        let R = radius * Num R_EARTH;
            M = mass * Num M_EARTH
        in (Num G * M) / (R * R))"

definition calculateEscapeVelocity :: "jsnum \<Rightarrow> jsnum \<Rightarrow> jsnum" where
  "calculateEscapeVelocity radius mass =
     (if radius \<le> Num 0 \<or> mass \<le> Num 0 then NaN
      else
        let R = radius * Num R_EARTH;
            M = mass * Num M_EARTH
        in Math_sqrt ((Num 2 * Num G * M) / R))"

definition calculateDensity :: "jsnum \<Rightarrow> jsnum \<Rightarrow> jsnum" where
  "calculateDensity radius mass =
     (if radius \<le> Num 0 \<or> mass \<le> Num 0 then NaN
      else
        let R = radius * Num R_EARTH;
            M = mass * Num M_EARTH;
            volume = (Num 4 / Num 3) * Math_PI * R * R * R
        in M / volume / Num 1000)"

definition estimateMassFromRadius :: "jsnum \<Rightarrow> jsnum" where
  "estimateMassFromRadius radius =
     (if radius < Num (15 / 10) then Math_pow radius (Num (18 / 10))
      else if radius < Num 4 then Math_pow radius (Num (25 / 10))
      else Math_pow radius (Num (35 / 10)))"

section \<open>Strings\<close>

text \<open>
  A JavaScript string is modelled as a list of bytes, its UTF-8 encoding. The predicates
  below are \<open>String.prototype.startsWith\<close> and \<open>String.prototype.includes\<close>.
\<close>

fun str_startsWith :: "string \<Rightarrow> string \<Rightarrow> bool" where
  "str_startsWith s [] = True"
| "str_startsWith [] (p # ps) = False"
| "str_startsWith (c # cs) (p # ps) = (c = p \<and> str_startsWith cs ps)"

fun str_includes :: "string \<Rightarrow> string \<Rightarrow> bool" where
  "str_includes [] p = (p = [])"
| "str_includes (c # cs) p = (str_startsWith (c # cs) p \<or> str_includes cs p)"

section \<open>Plausibility validation and the composite calculation\<close>

text \<open>An absent (\<open>undefined\<close>) field of the input is \<open>None\<close>.\<close>

record PhysicsCalculationInput =
  in_orbitalPeriodDays :: "jsnum option"
  in_semiMajorAxisAU :: "jsnum option"
  in_radiusEarth :: "jsnum option"
  in_massEarth :: "jsnum option"
  in_starTempK :: "jsnum option"
  in_starRadiusSolar :: "jsnum option"
  in_starMassSolar :: "jsnum option"
  in_starLuminositySolar :: "jsnum option"
  in_transitDepthPPM :: "jsnum option"
  in_transitDurationHours :: "jsnum option"

record PhysicsCalculationResult =
  out_orbitalPeriodDays :: jsnum
  out_semiMajorAxisAU :: jsnum
  out_equilibriumTemperatureK :: jsnum
  out_habitableZoneInnerAU :: jsnum
  out_habitableZoneOuterAU :: jsnum
  out_inHabitableZone :: bool
  out_surfaceGravityMS2 :: jsnum
  out_escapeVelocityMS :: jsnum
  out_densityGCM3 :: jsnum
  out_starLuminositySolar :: jsnum
  out_starRadiusM :: jsnum
  out_isPhysicallyPlausible :: bool
  out_warnings :: "string list"

text \<open>The two non-ASCII signs of the warning texts, in UTF-8: the Earth sign and the
  superscript three.\<close>

definition earth_sign :: string where
  "earth_sign = [CHR 0xE2, CHR 0x8A, CHR 0x95]"

definition superscript_three :: string where
  "superscript_three = [CHR 0xC2, CHR 0xB3]"

definition warn_radius_small :: string where
  "warn_radius_small = ''Planet radius very small (< 0.5 R'' @ earth_sign @ '')''"

definition warn_radius_large :: string where
  "warn_radius_large = ''Planet radius very large (> 10 R'' @ earth_sign @ '')''"

definition warn_mass_small :: string where
  "warn_mass_small = ''Planet mass very small (< 0.1 M'' @ earth_sign @ '')''"

definition warn_mass_large :: string where
  "warn_mass_large = ''Planet mass very large (> 1000 M'' @ earth_sign @ '')''"

definition warn_density_low :: string where
  "warn_density_low = ''Density unusually low (< 0.3 g/cm'' @ superscript_three @ '' - unlikely)''"

definition warn_density_high :: string where
  "warn_density_high =
     ''Density unusually high (> 14 g/cm'' @ superscript_three @ '' - iron core planet)''"

definition warn_period_short :: string where
  "warn_period_short = ''Orbital period very short (< 0.1 days)''"

definition warn_period_long :: string where
  "warn_period_long = ''Orbital period very long (> 10000 days)''"

definition warn_transit_depth :: string where
  "warn_transit_depth = ''Transit depth unusually large (> 1%)''"

text \<open>
  \<open>validatePhysicalPlausibility\<close> pushes onto one array, rule after rule; the model appends
  what each rule pushes, in the order of the source.
\<close>

definition validatePhysicalPlausibility :: "PhysicsCalculationInput \<Rightarrow> string list" where
  "validatePhysicalPlausibility params =
     (case in_radiusEarth params of
        None \<Rightarrow> []
      | Some r \<Rightarrow>
          (if r < Num (5 / 10) then [warn_radius_small] else [])
          @ (if Num 10 < r then [warn_radius_large] else []))
     @ (case in_massEarth params of
          None \<Rightarrow> []
        | Some m \<Rightarrow>
            (if m < Num (1 / 10) then [warn_mass_small] else [])
            @ (if Num 1000 < m then [warn_mass_large] else []))
     @ (case (in_radiusEarth params, in_massEarth params) of
          (Some r, Some m) \<Rightarrow>
            (let density = calculateDensity r m
             in (if density < Num (3 / 10) then [warn_density_low] else [])
                @ (if Num 14 < density then [warn_density_high] else []))
        | _ \<Rightarrow> [])
     @ (case in_orbitalPeriodDays params of
          None \<Rightarrow> []
        | Some p \<Rightarrow>
            (if p < Num (1 / 10) then [warn_period_short] else [])
            @ (if Num 10000 < p then [warn_period_long] else []))
     @ (case in_transitDepthPPM params of
          None \<Rightarrow> []
        | Some d \<Rightarrow> (if Num 10000 < d then [warn_transit_depth] else []))"

text \<open>The nullish-coalescing operator \<open>??\<close> on an optional field.\<close>

fun nullish :: "'a option \<Rightarrow> 'a \<Rightarrow> 'a" where
  "nullish (Some v) d = v"
| "nullish None d = d"

definition calculate :: "PhysicsCalculationInput \<Rightarrow> PhysicsCalculationResult" where
  "calculate inp =
     (let warnings = validatePhysicalPlausibility inp;
          starMass = nullish (in_starMassSolar inp) (Num 1);
          starRadius = nullish (in_starRadiusSolar inp) (Num 1);
          starTemp = nullish (in_starTempK inp) (Num 5778);
          starLuminosity =
            (case in_starLuminositySolar inp of
               None \<Rightarrow> calculateStellarLuminosity starRadius starTemp
             | Some l \<Rightarrow> l);
          orbitalPeriod0 = nullish (in_orbitalPeriodDays inp) (Num 365);
          semiMajorAxis0 = nullish (in_semiMajorAxisAU inp) (Num 1);
          semiMajorAxis =
            (case (in_orbitalPeriodDays inp, in_semiMajorAxisAU inp) of
               (Some p, None) \<Rightarrow> calculateSemiMajorAxis p starMass
             | _ \<Rightarrow> semiMajorAxis0);
          orbitalPeriod =
            (case (in_semiMajorAxisAU inp, in_orbitalPeriodDays inp) of
               (Some a, None) \<Rightarrow> calculateOrbitalPeriod a starMass
             | _ \<Rightarrow> orbitalPeriod0);
          equilibriumTemp =
            calculateEquilibriumTemperature starTemp starRadius semiMajorAxis (Num (3 / 10));
          hz = calculateHabitableZone starLuminosity;
          inHZ = (fst hz \<le> semiMajorAxis \<and> semiMajorAxis \<le> snd hz);
          radiusEarth = nullish (in_radiusEarth inp) (Num 1);
          massEarth =
            (case in_massEarth inp of
               None \<Rightarrow> estimateMassFromRadius radiusEarth
             | Some m \<Rightarrow> m);
          surfaceGravity = calculateSurfaceGravity radiusEarth massEarth;
          escapeVelocity = calculateEscapeVelocity radiusEarth massEarth;
          density = calculateDensity radiusEarth massEarth;
          isPlausible = (length warnings = 0)
      in \<lparr> out_orbitalPeriodDays = orbitalPeriod,
           out_semiMajorAxisAU = semiMajorAxis,
           out_equilibriumTemperatureK = equilibriumTemp,
           out_habitableZoneInnerAU = fst hz,
           out_habitableZoneOuterAU = snd hz,
           out_inHabitableZone = inHZ,
           out_surfaceGravityMS2 = surfaceGravity,
           out_escapeVelocityMS = escapeVelocity,
           out_densityGCM3 = density,
           out_starLuminositySolar = starLuminosity,
           out_starRadiusM = starRadius * Num R_SUN,
           out_isPhysicallyPlausible = isPlausible,
           out_warnings = warnings \<rparr>)"

section \<open>Text parsing helpers\<close>

text \<open>
  The string methods the parser uses. White space is the six ASCII white-space characters
  (tab, line feed, vertical tab, form feed, carriage return, space), and \<open>toLowerCase\<close> maps
  the letters \<open>A\<close> to \<open>Z\<close>: the white space and the letters beyond ASCII are not modelled.
  \<open>str_split\<close> is \<open>split\<close> with a one-character separator (it always returns at least one
  piece), \<open>str_split_ws\<close> is \<open>split(/\s+/)\<close>, and \<open>findIndex\<close> returns \<open>-1\<close> when no
  element matches.
\<close>

definition is_ws :: "char \<Rightarrow> bool" where
  "is_ws c = (c \<in> set [CHR 0x09, CHR 0x0A, CHR 0x0B, CHR 0x0C, CHR 0x0D, CHR '' ''])"

definition str_trim :: "string \<Rightarrow> string" where
  "str_trim s = rev (dropWhile is_ws (rev (dropWhile is_ws s)))"

definition lower_char :: "char \<Rightarrow> char" where
  "lower_char c =
     (case map_of (zip ''ABCDEFGHIJKLMNOPQRSTUVWXYZ'' ''abcdefghijklmnopqrstuvwxyz'') c of
        Some l \<Rightarrow> l
      | None \<Rightarrow> c)"

definition str_toLowerCase :: "string \<Rightarrow> string" where
  "str_toLowerCase s = map lower_char s"

fun str_split :: "char \<Rightarrow> string \<Rightarrow> string list" where
  "str_split sep [] = ['''']"
| "str_split sep (c # cs) =
     (if c = sep then [] # str_split sep cs
      else (case str_split sep cs of
              [] \<Rightarrow> [c # []]
            | w # ws \<Rightarrow> (c # w) # ws))"

fun str_join :: "string \<Rightarrow> string list \<Rightarrow> string" where
  "str_join sep [] = []"
| "str_join sep [x] = x"
| "str_join sep (x # y # ys) = x @ sep @ str_join sep (y # ys)"

fun findIndex :: "('a \<Rightarrow> bool) \<Rightarrow> 'a list \<Rightarrow> int" where
  "findIndex P [] = - 1"
| "findIndex P (x # xs) =
     (if P x then 0
      else (let i = findIndex P xs in if i = - 1 then - 1 else i + 1))"

text \<open>
  \<open>parseFloat\<close>, the built-in of the language: skip leading white space, then read the
  longest prefix that is a decimal literal, that is an optional sign, digits with an optional
  fraction (or a fraction alone), and an exponent when \<open>e\<close> is followed by an optional sign
  and at least one digit. Without such a prefix the result is \<open>NaN\<close>. The value is the exact
  decimal; the literal \<open>Infinity\<close> has no value in the number model and reads as \<open>NaN\<close>.
\<close>

definition is_digit :: "char \<Rightarrow> bool" where
  "is_digit c = (c \<in> set ''0123456789'')"

definition digit_val :: "char \<Rightarrow> nat" where
  "digit_val c =
     (case map_of (zip ''0123456789'' [0, 1, 2, 3, 4, 5, 6, 7, 8, 9]) c of
        Some d \<Rightarrow> d
      | None \<Rightarrow> 0)"

definition digits_val :: "string \<Rightarrow> nat" where
  "digits_val ds = foldl (\<lambda>n c. 10 * n + digit_val c) 0 ds"

fun strip_sign :: "string \<Rightarrow> bool \<times> string" where
  "strip_sign (c # cs) =
     (if c = CHR ''-'' then (True, cs) else if c = CHR ''+'' then (False, cs)
      else (False, c # cs))"
| "strip_sign [] = (False, [])"

fun exponent_part :: "string \<Rightarrow> int" where
  "exponent_part (c # cs) =
     (if c = CHR ''e'' \<or> c = CHR ''E'' then
        (let (neg, r) = strip_sign cs;
             ds = takeWhile is_digit r
         in if ds = [] then 0
            else if neg then - int (digits_val ds) else int (digits_val ds))
      else 0)"
| "exponent_part [] = 0"

definition parseFloat :: "string \<Rightarrow> jsnum" where
  "parseFloat s =
     (let (neg, u) = strip_sign (dropWhile is_ws s);
          ip = takeWhile is_digit u;
          r1 = dropWhile is_digit u;
          (fp, r2) = (case r1 of
                        c # r \<Rightarrow>
                          if c = CHR ''.'' then (takeWhile is_digit r, dropWhile is_digit r)
                          else ([], r1)
                      | [] \<Rightarrow> ([], r1))
      in if ip = [] \<and> fp = [] then NaN
         else
           let mant = real (digits_val ip) + real (digits_val fp) / 10 ^ length fp;
               ex = exponent_part r2;
               v = (if 0 \<le> ex then mant * 10 ^ nat ex else mant / 10 ^ nat (- ex))
           in Num (if neg then - v else v))"

fun str_split_ws :: "string \<Rightarrow> string list" where
  "str_split_ws [] = ['''']"
| "str_split_ws (c # cs) =
     (if is_ws c then
        (case cs of
           d # _ \<Rightarrow> if is_ws d then str_split_ws cs else [] # str_split_ws cs
         | [] \<Rightarrow> [] # str_split_ws cs)
      else (case str_split_ws cs of
              [] \<Rightarrow> [c # []]
            | w # ws \<Rightarrow> (c # w) # ws))"

text \<open>\<open>values[i]\<close>: an index outside the array reads \<open>undefined\<close>, which \<open>parseFloat\<close>
  converts to the string \<open>undefined\<close>.\<close>

definition at_index :: "string list \<Rightarrow> int \<Rightarrow> string" where
  "at_index values i =
     (if 0 \<le> i \<and> i < int (length values) then values ! nat i else ''undefined'')"

fun js_mod :: "jsnum \<Rightarrow> jsnum \<Rightarrow> jsnum" where
  "js_mod (Num a) (Num b) =
     (if b = 0 then NaN
      else Num (a - b * of_int (if 0 \<le> a / b then \<lfloor>a / b\<rfloor> else \<lceil>a / b\<rceil>)))"
| "js_mod _ _ = NaN"

datatype data_source = Kepler | K2 | Tess | Unknown

record LightCurveMetadata =
  md_source :: data_source
  md_targetId :: "string option"
  md_campaign :: "string option"
  md_sector :: "string option"

record ParsedLightCurve =
  lc_time :: "jsnum list"
  lc_flux :: "jsnum list"
  lc_error :: "jsnum list option"
  lc_metadata :: LightCurveMetadata

datatype js_error = Error string | TypeError

definition detectDataSource :: "string list \<Rightarrow> data_source" where
  "detectDataSource headers =
     (let headerStr = str_toLowerCase (str_join '' '' headers)
      in if str_includes headerStr ''kepler'' \<or> str_includes headerStr ''kic'' then Kepler
         else if str_includes headerStr ''k2'' \<or> str_includes headerStr ''epic'' then K2
         else if str_includes headerStr ''tess'' \<or> str_includes headerStr ''tic'' then Tess
         else Unknown)"

text \<open>
  \<open>extractTargetId\<close> matches \<open>/(?:kic|epic|tic)[\s]*(\d+)/i\<close>: the leftmost position where
  one of the three words, in any case, is followed by optional white space and at least one
  digit; the result is the run of digits.
\<close>

definition match_target_at :: "string \<Rightarrow> string option" where
  "match_target_at s =
     (let l = str_toLowerCase s;
          n = (if str_startsWith l ''kic'' then Some 3
               else if str_startsWith l ''epic'' then Some 4
               else if str_startsWith l ''tic'' then Some 3
               else None)
      in case n of
           None \<Rightarrow> None
         | Some k \<Rightarrow>
             (let ds = takeWhile is_digit (dropWhile is_ws (drop k s))
              in if ds = [] then None else Some ds))"

fun extractTargetId :: "string \<Rightarrow> string option" where
  "extractTargetId [] = None"
| "extractTargetId (c # cs) =
     (case match_target_at (c # cs) of
        Some ds \<Rightarrow> Some ds
      | None \<Rightarrow> extractTargetId cs)"

text \<open>
  The mock generators. \<open>Math.random\<close> is a parameter: \<open>rnd k\<close> is the value of the \<open>k\<close>-th
  call. The loops run for the naturals \<open>i < duration / cadence\<close>.
\<close>

definition mock_samples :: nat where
  "mock_samples = nat \<lceil>(1000 :: real) / (2 / 100)\<rceil>"

definition generateMockTimeSeries :: "jsnum list" where
  "generateMockTimeSeries =
     map (\<lambda>i. Num 2454833 + Num (real i) * Num (2 / 100)) [0 ..< mock_samples]"

definition generateMockFluxSeries :: "(nat \<Rightarrow> jsnum) \<Rightarrow> jsnum list" where
  "generateMockFluxSeries rnd =
     map (\<lambda>i.
            let time = Num (real i) * Num (2 / 100);
                phase = js_mod time (Num 365) / Num 365;
                inTransit = (phase < Num (1 / 10));
                fluxValue = (if inTransit then Num 1 - Num (1 / 100) else Num 1)
            in fluxValue + (rnd i - Num (5 / 10)) * Num (1 / 1000))
         [0 ..< mock_samples]"

definition generateMockErrorSeries :: "(nat \<Rightarrow> jsnum) \<Rightarrow> jsnum list" where
  "generateMockErrorSeries rnd =
     map (\<lambda>i. rnd i * Num (5 / 10000) + Num (1 / 10000)) [0 ..< mock_samples]"

definition generateMockLightCurve :: "(nat \<Rightarrow> jsnum) \<Rightarrow> ParsedLightCurve" where
  "generateMockLightCurve rnd =
     \<lparr> lc_time = generateMockTimeSeries,
       lc_flux = generateMockFluxSeries rnd,
       lc_error = Some (generateMockErrorSeries (\<lambda>i. rnd (mock_samples + i))),
       lc_metadata = \<lparr> md_source = Kepler, md_targetId = Some ''mock_target'',
                       md_campaign = None, md_sector = None \<rparr> \<rparr>"

text \<open>
  The row loop of \<open>parseCSVDataWithIndices\<close> and of \<open>parseKeplerKOIData\<close>: the two loop bodies
  are the same, statement for statement (the second also counts rows for its log line). The
  three arrays are the state.
\<close>

fun parse_rows ::
  "int \<Rightarrow> int \<Rightarrow> int \<Rightarrow> string list \<Rightarrow> jsnum list \<times> jsnum list \<times> jsnum list
   \<Rightarrow> jsnum list \<times> jsnum list \<times> jsnum list" where
  "parse_rows timeIndex fluxIndex errorIndex [] (time, flux, error) = (time, flux, error)"
| "parse_rows timeIndex fluxIndex errorIndex (l # ls) (time, flux, error) =
     (let line = str_trim l in
      if line = [] \<or> str_startsWith line ''#'' \<or> str_startsWith line ''%'' then
        parse_rows timeIndex fluxIndex errorIndex ls (time, flux, error)
      else
        let values = map str_trim (str_split CHR '','' line) in
        if int (length values) \<le> max timeIndex fluxIndex then
          parse_rows timeIndex fluxIndex errorIndex ls (time, flux, error)
        else
          let timeVal = parseFloat (at_index values timeIndex);
              fluxVal = parseFloat (at_index values fluxIndex)
          in if \<not> isNaN timeVal \<and> \<not> isNaN fluxVal then
               parse_rows timeIndex fluxIndex errorIndex ls
                 (time @ [timeVal], flux @ [fluxVal],
                  if errorIndex \<noteq> - 1 \<and> errorIndex < int (length values) then
                    (let errorVal = parseFloat (at_index values errorIndex)
                     in error @ [if isNaN errorVal then Num 0 else errorVal])
                  else error)
             else parse_rows timeIndex fluxIndex errorIndex ls (time, flux, error))"

definition csv_headers :: "string \<Rightarrow> string list" where
  "csv_headers line0 = map (\<lambda>h. str_toLowerCase (str_trim h)) (str_split CHR '','' line0)"

definition parseCSVDataWithIndices ::
  "(nat \<Rightarrow> jsnum) \<Rightarrow> string \<Rightarrow> int \<Rightarrow> int \<Rightarrow> int \<Rightarrow> js_error + ParsedLightCurve" where
  "parseCSVDataWithIndices rnd csvContent timeIndex fluxIndex errorIndex =
     (case str_split CHR ''\<newline>'' (str_trim csvContent) of
        [] \<Rightarrow> Inl TypeError
      | line0 # rows \<Rightarrow>
          (let headers = csv_headers line0;
               (time, flux, error) = parse_rows timeIndex fluxIndex errorIndex rows ([], [], [])
           in if length time = 0 then Inr (generateMockLightCurve rnd)
              else Inr \<lparr> lc_time = time, lc_flux = flux,
                         lc_error = (if 0 < length error then Some error else None),
                         lc_metadata = \<lparr> md_source = detectDataSource headers,
                                         md_targetId = extractTargetId csvContent,
                                         md_campaign = None, md_sector = None \<rparr> \<rparr>))"

definition koi_is_time :: "string \<Rightarrow> bool" where
  "koi_is_time header \<longleftrightarrow>
     str_includes header ''time'' \<or> str_includes header ''bjd'' \<or> str_includes header ''jd''
     \<or> str_includes header ''date'' \<or> str_includes header ''t_obs''
     \<or> str_includes header ''timestamp''"

definition koi_is_flux :: "string \<Rightarrow> bool" where
  "koi_is_flux header \<longleftrightarrow>
     str_includes header ''flux'' \<or> str_includes header ''brightness''
     \<or> str_includes header ''relative_flux'' \<or> str_includes header ''normalized_flux''"

definition koi_is_error :: "string \<Rightarrow> bool" where
  "koi_is_error header \<longleftrightarrow>
     str_includes header ''error'' \<or> str_includes header ''err''
     \<or> str_includes header ''sigma'' \<or> str_includes header ''uncertainty''"

text \<open>
  \<open>parseKeplerKOIData\<close>: each of its three search loops stops at the first matching header
  and leaves \<open>-1\<close> when there is none, which is \<open>findIndex\<close>.
\<close>

definition parseKeplerKOIData :: "string \<Rightarrow> string list \<Rightarrow> ParsedLightCurve" where
  "parseKeplerKOIData csvContent headers =
     (let lines = str_split CHR ''\<newline>'' (str_trim csvContent);
          timeIndex0 = findIndex koi_is_time headers;
          fluxIndex0 = findIndex koi_is_flux headers;
          errorIndex = findIndex koi_is_error headers;
          timeIndex = (if timeIndex0 = - 1 then 0 else timeIndex0);
          fluxIndex = (if fluxIndex0 = - 1 then 1 else fluxIndex0);
          (time, flux, error) =
            parse_rows timeIndex fluxIndex errorIndex (drop 1 lines) ([], [], [])
      in \<lparr> lc_time = time, lc_flux = flux,
           lc_error = (if 0 < length error then Some error else None),
           lc_metadata = \<lparr> md_source = Kepler,
                           md_targetId = extractTargetId csvContent,
                           md_campaign = None, md_sector = None \<rparr> \<rparr>)"

definition is_time_header :: "string \<Rightarrow> bool" where
  "is_time_header h \<longleftrightarrow>
     str_includes h ''time'' \<or> str_includes h ''bjd'' \<or> str_includes h ''jd''
     \<or> str_includes h ''date'' \<or> str_includes h ''t'' \<or> h = ''x'' \<or> h = ''0''
     \<or> str_includes h ''t_obs'' \<or> str_includes h ''timestamp''"

definition is_flux_header :: "string \<Rightarrow> bool" where
  "is_flux_header h \<longleftrightarrow>
     str_includes h ''flux'' \<or> str_includes h ''pdcsap_flux'' \<or> str_includes h ''sap_flux''
     \<or> str_includes h ''brightness'' \<or> str_includes h ''magnitude'' \<or> h = ''y'' \<or> h = ''1''
     \<or> str_includes h ''relative_flux'' \<or> str_includes h ''normalized_flux''"

definition is_error_header :: "string \<Rightarrow> bool" where
  "is_error_header h \<longleftrightarrow>
     str_includes h ''error'' \<or> str_includes h ''flux_err'' \<or> str_includes h ''err''
     \<or> str_includes h ''sigma'' \<or> str_includes h ''uncertainty''
     \<or> str_includes h ''flux_error''"

definition parseCSVData :: "(nat \<Rightarrow> jsnum) \<Rightarrow> string \<Rightarrow> js_error + ParsedLightCurve" where
  "parseCSVData rnd csvContent =
     (case str_split CHR ''\<newline>'' (str_trim csvContent) of
        [] \<Rightarrow> Inl TypeError
      | line0 # rows \<Rightarrow>
          (let headers = csv_headers line0;
               timeIndex = findIndex is_time_header headers;
               fluxIndex = findIndex is_flux_header headers;
               errorIndex = findIndex is_error_header headers
           in if 5 < length headers then Inr (parseKeplerKOIData csvContent headers)
              else if timeIndex = - 1 \<or> fluxIndex = - 1 then
                (if 2 \<le> length headers then parseCSVDataWithIndices rnd csvContent 0 1 2
                 else Inl (Error (''Invalid CSV format: missing time or flux columns. ''
                                  @ ''Found headers: '' @ str_join '', '' headers)))
              else parseCSVDataWithIndices rnd csvContent timeIndex fluxIndex errorIndex))"

fun parse_text_lines ::
  "string list \<Rightarrow> jsnum list \<times> jsnum list \<times> jsnum list
   \<Rightarrow> jsnum list \<times> jsnum list \<times> jsnum list" where
  "parse_text_lines [] (time, flux, error) = (time, flux, error)"
| "parse_text_lines (line # ls) (time, flux, error) =
     (let values = str_split_ws (str_trim line) in
      if 2 \<le> length values then
        (let timeVal = parseFloat (at_index values 0);
             fluxVal = parseFloat (at_index values 1)
         in if \<not> isNaN timeVal \<and> \<not> isNaN fluxVal then
              parse_text_lines ls
                (time @ [timeVal], flux @ [fluxVal],
                 if 3 \<le> length values then
                   (let errorVal = parseFloat (at_index values 2)
                    in error @ [if isNaN errorVal then Num 0 else errorVal])
                 else error)
            else parse_text_lines ls (time, flux, error))
      else parse_text_lines ls (time, flux, error))"

definition parseTextData :: "string \<Rightarrow> ParsedLightCurve" where
  "parseTextData textContent =
     (let lines = str_split CHR ''\<newline>'' (str_trim textContent);
          dataLines = filter (\<lambda>line. str_trim line \<noteq> [] \<and> \<not> str_startsWith line ''#''
                                      \<and> \<not> str_startsWith line ''%'') lines;
          (time, flux, error) = parse_text_lines dataLines ([], [], [])
      in \<lparr> lc_time = time, lc_flux = flux,
           lc_error = (if 0 < length error then Some error else None),
           lc_metadata = \<lparr> md_source = Unknown, md_targetId = None,
                           md_campaign = None, md_sector = None \<rparr> \<rparr>)"

section \<open>Well-formed numeric tables\<close>

text \<open>
  The inputs of the Kepler table property: a cell is a valid numeric value when it is a
  non-empty word over the characters of a decimal literal that \<open>parseFloat\<close> converts to a
  number; a table is its header line followed by its rows, the cells of a row joined by
  commas and the lines by newlines. \<open>error_value\<close> is what the row loop pushes for the
  error cell.
\<close>

definition numeric_char :: "char \<Rightarrow> bool" where
  "numeric_char c = (c \<in> set ''0123456789+-.eE'')"

definition numeric_cell :: "string \<Rightarrow> bool" where
  "numeric_cell c \<longleftrightarrow> c \<noteq> [] \<and> list_all numeric_char c \<and> \<not> isNaN (parseFloat c)"

definition csv_text :: "string \<Rightarrow> string list list \<Rightarrow> string" where
  "csv_text header rows = str_join ''\<newline>'' (header # map (str_join '','') rows)"

definition error_value :: "string \<Rightarrow> jsnum" where
  "error_value c = (let errorVal = parseFloat c in if isNaN errorVal then Num 0 else errorVal)"


section \<open>The model service\<close>

text \<open>
  A computation that may throw, and a promise that is settled. The \<open>try\<close> block of
  \<open>predict\<close> is a sequence of computations that may throw; its \<open>catch\<close> block returns the
  mock prediction.
\<close>

datatype 'a outcome = Throws | Returns 'a

datatype 'a promise = Rejected | Resolved 'a

record LightCurveData =
  ld_time :: "jsnum list"
  ld_flux :: "jsnum list"
  ld_error :: "jsnum list option"

record DatasetCharacteristics =
  dc_timePoints :: jsnum
  dc_fluxPoints :: jsnum
  dc_timeRange :: jsnum
  dc_fluxMean :: jsnum
  dc_fluxMin :: jsnum
  dc_fluxMax :: jsnum
  dc_fluxStdDev :: jsnum

record ModelPrediction =
  mp_probability :: jsnum
  mp_confidence :: jsnum
  mp_planetType :: string
  mp_isHabitable :: bool
  mp_hasAtmosphere :: bool
  mp_hasWater :: bool
  mp_temperature :: jsnum
  mp_radius :: jsnum
  mp_distanceFromStar :: jsnum
  mp_timePoints :: "jsnum option"
  mp_fluxPoints :: "jsnum option"
  mp_timeRange :: "jsnum option"
  mp_fluxMean :: "jsnum option"
  mp_fluxMin :: "jsnum option"
  mp_fluxMax :: "jsnum option"
  mp_fluxStdDev :: "jsnum option"

fun Math_min :: "jsnum \<Rightarrow> jsnum \<Rightarrow> jsnum" where
  "Math_min (Num a) (Num b) = Num (min a b)"
| "Math_min _ _ = NaN"

fun Math_round :: "jsnum \<Rightarrow> jsnum" where
  "Math_round (Num a) = Num (of_int \<lfloor>a + 1 / 2\<rfloor>)"
| "Math_round NaN = NaN"

definition classifyPlanetType :: "jsnum \<Rightarrow> LightCurveData \<Rightarrow> string" where
  "classifyPlanetType probability data =
     (if Num (9 / 10) < probability then ''Super Earth''
      else if Num (7 / 10) < probability then ''Terrestrial''
      else if Num (5 / 10) < probability then ''Mini-Neptune''
      else ''Gas Giant'')"

definition estimateTemperature :: "jsnum \<Rightarrow> LightCurveData \<Rightarrow> jsnum" where
  "estimateTemperature probability data =
     (let baseTemp = Num 200 + probability * Num 200 in Math_round baseTemp)"

definition estimateRadius :: "jsnum \<Rightarrow> LightCurveData \<Rightarrow> jsnum" where
  "estimateRadius probability data = Num (5 / 10) + probability * Num (25 / 10)"

definition estimateDistance :: "jsnum \<Rightarrow> LightCurveData \<Rightarrow> jsnum" where
  "estimateDistance probability data = Num (2 / 100) + probability * Num (5 / 10)"

text \<open>\<open>getMockPrediction\<close>; \<open>r\<close> is the value its call of \<open>Math.random\<close> returns.\<close>

definition getMockPrediction :: "jsnum \<Rightarrow> LightCurveData \<Rightarrow> ModelPrediction" where
  "getMockPrediction r data =
     (let probability = Num (7 / 10) + r * Num (25 / 100)
      in \<lparr> mp_probability = probability,
           mp_confidence = probability * Num (9 / 10),
           mp_planetType = classifyPlanetType probability data,
           mp_isHabitable = (Num (7 / 10) < probability),
           mp_hasAtmosphere = (Num (6 / 10) < probability),
           mp_hasWater = (Num (8 / 10) < probability),
           mp_temperature = estimateTemperature probability data,
           mp_radius = estimateRadius probability data,
           mp_distanceFromStar = estimateDistance probability data,
           mp_timePoints = None, mp_fluxPoints = None, mp_timeRange = None,
           mp_fluxMean = None, mp_fluxMin = None, mp_fluxMax = None,
           mp_fluxStdDev = None \<rparr>)"

text \<open>
  The \<open>try\<close> block of \<open>predict\<close>. What lies outside the service or is numeric bookkeeping
  enters as the result it produces for this request: \<open>model\<close> is the field \<open>this.model\<close>
  after \<open>loadModel\<close> (absent when loading failed, which \<open>loadModel\<close> itself catches) applied
  to the feature vector, giving the first entry of the prediction array or throwing;
  \<open>features\<close> is the result of \<open>preprocessLightCurve(data)\<close>; \<open>simulated\<close> is the result
  of \<open>simulateModelPrediction(features, data)\<close>; \<open>characteristics\<close> is the result of the
  block computing the dataset characteristics. Each of the three may throw (a \<open>reduce\<close>
  without initial value on an empty array does).
\<close>

definition predict_try ::
  "(jsnum list \<Rightarrow> jsnum outcome) option \<Rightarrow> jsnum list outcome \<Rightarrow> jsnum outcome
   \<Rightarrow> DatasetCharacteristics outcome \<Rightarrow> LightCurveData \<Rightarrow> ModelPrediction outcome" where
  "predict_try model features simulated characteristics data =
     (case features of
        Throws \<Rightarrow> Throws
      | Returns fs \<Rightarrow>
          (case (case model of Some m \<Rightarrow> m fs | None \<Rightarrow> simulated) of
             Throws \<Rightarrow> Throws
           | Returns probability \<Rightarrow>
               (let confidence = Math_min (probability * Num (12 / 10)) (Num 1)
                in case characteristics of
                     Throws \<Rightarrow> Throws
                   | Returns c \<Rightarrow>
                       Returns
                         \<lparr> mp_probability = probability,
                           mp_confidence = confidence,
                           mp_planetType = classifyPlanetType probability data,
                           mp_isHabitable = (Num (7 / 10) < probability),
                           mp_hasAtmosphere = (Num (6 / 10) < probability),
                           mp_hasWater = (Num (8 / 10) < probability),
                           mp_temperature = estimateTemperature probability data,
                           mp_radius = estimateRadius probability data,
                           mp_distanceFromStar = estimateDistance probability data,
                           mp_timePoints = Some (dc_timePoints c),
                           mp_fluxPoints = Some (dc_fluxPoints c),
                           mp_timeRange = Some (dc_timeRange c),
                           mp_fluxMean = Some (dc_fluxMean c),
                           mp_fluxMin = Some (dc_fluxMin c),
                           mp_fluxMax = Some (dc_fluxMax c),
                           mp_fluxStdDev = Some (dc_fluxStdDev c) \<rparr>)))"

text \<open>\<open>predict\<close>: the \<open>try\<close> block, and \<open>getMockPrediction\<close> when anything in it throws.\<close>

definition predict ::
  "(jsnum list \<Rightarrow> jsnum outcome) option \<Rightarrow> jsnum list outcome \<Rightarrow> jsnum outcome
   \<Rightarrow> DatasetCharacteristics outcome \<Rightarrow> jsnum \<Rightarrow> LightCurveData
   \<Rightarrow> ModelPrediction promise" where
  "predict model features simulated characteristics r data =
     (case predict_try model features simulated characteristics data of
        Returns prediction \<Rightarrow> Resolved prediction
      | Throws \<Rightarrow> Resolved (getMockPrediction r data))"

text \<open>Two external scorers: one that throws, one that answers with a non-finite
  probability.\<close>

definition failing_model :: "jsnum list \<Rightarrow> jsnum outcome" where
  "failing_model features = Throws"

definition corrupt_model :: "jsnum list \<Rightarrow> jsnum outcome" where
  "corrupt_model features = Returns NaN"

section \<open>Double-precision arithmetic\<close>

text \<open>
  The round trip through Kepler's third law depends on the rounding and the range of the
  numbers, so its two functions are also embedded over IEEE 754 binary64 values: a finite
  real that the format represents, an infinity with its sign (\<open>True\<close> is negative), or
  not-a-number. \<open>round_double\<close> is rounding to nearest, ties to even, with 53 bits of
  precision, gradual underflow below \<open>2^-1022\<close> and overflow to an infinity from \<open>2^1024\<close>
  on. Each arithmetic operation is the exact operation followed by that rounding, a decimal
  literal of the source is the rounding of its value, and \<open>Math.PI\<close> is the rounding of
  \<open>pi\<close>. The sign of a zero is not modelled (a zero divisor is taken as positive).
  \<open>Math.sqrt\<close> is correctly rounded. \<open>Math.cbrt\<close> is implementation-approximated: its value
  on a finite argument is the parameter \<open>cbrt_impl\<close>, and on an infinity it is that infinity.
\<close>

datatype double = DNaN | DInf bool | DFin real

definition round_even :: "real \<Rightarrow> int" where
  "round_even y =
     (let f = \<lfloor>y\<rfloor>; d = y - of_int f
      in if d < 1 / 2 then f else if 1 / 2 < d then f + 1
         else if even f then f else f + 1)"

definition round_double :: "real \<Rightarrow> double" where
  "round_double x =
     (if x = 0 then DFin 0
      else
        let e = max \<lfloor>log 2 \<bar>x\<bar>\<rfloor> (- 1022);
            q = 2 powr (of_int e - 52);
            y = q * of_int (round_even (x / q))
        in if 2 powr 1024 \<le> \<bar>y\<bar> then DInf (x < 0) else DFin y)"

instantiation double :: "{minus, times, inverse, ord, abs}"
begin

fun minus_double :: "double \<Rightarrow> double \<Rightarrow> double" where
  "minus_double (DFin a) (DFin b) = round_double (a - b)"
| "minus_double (DFin a) (DInf s) = DInf (\<not> s)"
| "minus_double (DInf s) (DFin b) = DInf s"
| "minus_double (DInf s) (DInf t) = (if s = t then DNaN else DInf s)"
| "minus_double _ _ = DNaN"

fun times_double :: "double \<Rightarrow> double \<Rightarrow> double" where
  "times_double (DFin a) (DFin b) = round_double (a * b)"
| "times_double (DFin a) (DInf s) = (if a = 0 then DNaN else DInf (s \<noteq> (a < 0)))"
| "times_double (DInf s) (DFin b) = (if b = 0 then DNaN else DInf (s \<noteq> (b < 0)))"
| "times_double (DInf s) (DInf t) = DInf (s \<noteq> t)"
| "times_double _ _ = DNaN"

fun divide_double :: "double \<Rightarrow> double \<Rightarrow> double" where
  "divide_double (DFin a) (DFin b) =
     (if b = 0 then (if a = 0 then DNaN else DInf (a < 0)) else round_double (a / b))"
| "divide_double (DFin a) (DInf s) = DFin 0"
| "divide_double (DInf s) (DFin b) = DInf (s \<noteq> (b < 0))"
| "divide_double _ _ = DNaN"

fun inverse_double :: "double \<Rightarrow> double" where
  "inverse_double (DFin b) = (if b = 0 then DInf False else round_double (1 / b))"
| "inverse_double (DInf s) = DFin 0"
| "inverse_double DNaN = DNaN"

fun abs_double :: "double \<Rightarrow> double" where
  "abs_double (DFin a) = DFin \<bar>a\<bar>"
| "abs_double (DInf s) = DInf False"
| "abs_double DNaN = DNaN"

fun less_eq_double :: "double \<Rightarrow> double \<Rightarrow> bool" where
  "less_eq_double (DFin a) (DFin b) = (a \<le> b)"
| "less_eq_double (DFin a) (DInf s) = (\<not> s)"
| "less_eq_double (DInf s) (DFin b) = s"
| "less_eq_double (DInf s) (DInf t) = (s \<or> \<not> t)"
| "less_eq_double _ _ = False"

fun less_double :: "double \<Rightarrow> double \<Rightarrow> bool" where
  "less_double (DFin a) (DFin b) = (a < b)"
| "less_double (DFin a) (DInf s) = (\<not> s)"
| "less_double (DInf s) (DFin b) = s"
| "less_double (DInf s) (DInf t) = (s \<and> \<not> t)"
| "less_double _ _ = False"

instance ..

end

fun Math_sqrt_double :: "double \<Rightarrow> double" where
  "Math_sqrt_double (DFin a) = (if a < 0 then DNaN else round_double (sqrt a))"
| "Math_sqrt_double (DInf s) = (if s then DNaN else DInf False)"
| "Math_sqrt_double DNaN = DNaN"

fun Math_cbrt_double :: "(real \<Rightarrow> real) \<Rightarrow> double \<Rightarrow> double" where
  "Math_cbrt_double cbrt_impl (DFin a) = DFin (cbrt_impl a)"
| "Math_cbrt_double cbrt_impl (DInf s) = DInf s"
| "Math_cbrt_double cbrt_impl DNaN = DNaN"

definition calculateSemiMajorAxis_double :: "(real \<Rightarrow> real) \<Rightarrow> double \<Rightarrow> double \<Rightarrow> double" where
  "calculateSemiMajorAxis_double cbrt_impl periodDays starMassSolar =
     (if periodDays \<le> DFin 0 \<or> starMassSolar \<le> DFin 0 then DNaN
      else
        let P = periodDays * round_double 24 * round_double 3600;
            M = starMassSolar * round_double M_SUN;
            a_cubed = round_double G * M * P * P
                      / (round_double 4 * round_double pi * round_double pi);
            a = Math_cbrt_double cbrt_impl a_cubed
        in a / round_double AU)"

definition calculateOrbitalPeriod_double :: "double \<Rightarrow> double \<Rightarrow> double" where
  "calculateOrbitalPeriod_double semiMajorAxis starMassSolar =
     (if semiMajorAxis \<le> DFin 0 \<or> starMassSolar \<le> DFin 0 then DNaN
      else
        let a = semiMajorAxis * round_double AU;
            M = starMassSolar * round_double M_SUN;
            T_squared = (round_double 4 * round_double pi * round_double pi * a * a * a)
                        / (round_double G * M);
            T = Math_sqrt_double T_squared
        in T / (round_double 24 * round_double 3600))"

text \<open>One implementation of \<open>Math.cbrt\<close>: the double nearest to the cube root.\<close>

definition cbrt_nearest :: "real \<Rightarrow> real" where
  "cbrt_nearest x = (case round_double (root 3 x) of DFin y \<Rightarrow> y | _ \<Rightarrow> 0)"

text \<open>
  \<open>cbrt_ok\<close>: on the normal range the implementation of \<open>Math.cbrt\<close> is within a relative
  error of \<open>2^-52\<close> of the cube root. The other definitions measure rounding in a proof:
  \<open>approx n x y\<close> says that \<open>y\<close> is \<open>x\<close> up to \<open>n\<close> roundings, \<open>inrange k x\<close> that
  \<open>x\<close> lies between \<open>2^-k\<close> and \<open>2^k\<close>, and \<open>tracks n k x d\<close> that the double \<open>d\<close> is finite
  and approximates the real \<open>x\<close> in that sense.
\<close>

definition pow2 :: "int \<Rightarrow> real" where
  "pow2 k = 2 powr of_int k"

definition unit_w :: real where
  "unit_w = 1 - 1 / 2 ^ 53"

definition approx :: "nat \<Rightarrow> real \<Rightarrow> real \<Rightarrow> bool" where
  "approx n x y \<longleftrightarrow> 0 < x \<and> x * unit_w ^ n \<le> y \<and> y * unit_w ^ n \<le> x"

definition inrange :: "nat \<Rightarrow> real \<Rightarrow> bool" where
  "inrange k x \<longleftrightarrow> pow2 (- int k) \<le> x \<and> x \<le> pow2 (int k)"

definition tracks :: "nat \<Rightarrow> nat \<Rightarrow> real \<Rightarrow> double \<Rightarrow> bool" where
  "tracks n k x d \<longleftrightarrow> inrange k x \<and> (\<exists>y. d = DFin y \<and> approx n x y)"

definition cbrt_ok :: "(real \<Rightarrow> real) \<Rightarrow> bool" where
  "cbrt_ok c \<longleftrightarrow>
     (\<forall>y. pow2 (- 1022) \<le> y \<and> y \<le> pow2 1022 \<longrightarrow> \<bar>c y - root 3 y\<bar> \<le> root 3 y / 2 ^ 52)"

section \<open>The mass-radius estimator at the 1.5 Earth-radius breakpoint\<close>

lemma powr_three_halves_upper: "(3 / 2 :: real) powr (9 / 5) < 9 / 4"
proof -
  have "(3 / 2 :: real) powr (9 / 5) < (3 / 2) powr 2"
    by (rule powr_less_mono) simp_all
  also have "(3 / 2 :: real) powr 2 = 9 / 4"
    by (simp add: power2_eq_square)
  finally show ?thesis .
qed

lemma sqrt_three_halves_lower: "6 / 5 < sqrt (3 / 2 :: real)"
proof -
  have "sqrt ((6 / 5)\<^sup>2) < sqrt (3 / 2 :: real)"
    by (subst real_sqrt_less_iff) (simp add: power2_eq_square)
  then show ?thesis by simp
qed

lemma powr_three_halves_lower: "27 / 10 < (3 / 2 :: real) powr (5 / 2)"
proof -
  have "(3 / 2 :: real) powr (5 / 2) = (3 / 2) powr (2 + 1 / 2)"
    by simp
  also have "\<dots> = (3 / 2) powr 2 * (3 / 2) powr (1 / 2)"
    by (rule powr_add)
  also have "\<dots> = 9 / 4 * sqrt (3 / 2)"
    by (simp add: powr_half_sqrt power2_eq_square)
  finally have eq: "(3 / 2 :: real) powr (5 / 2) = 9 / 4 * sqrt (3 / 2)" .
  have "27 / 10 = 9 / 4 * (6 / 5 :: real)" by simp
  also have "\<dots> < 9 / 4 * sqrt (3 / 2)"
    using sqrt_three_halves_lower by simp
  finally show ?thesis using eq by simp
qed

text \<open>
  C4, as stated: at radius 1.5 the value of the first branch, \<open>Math.pow(1.5, 1.8)\<close>, and the
  value the estimator returns there (the second branch, \<open>Math.pow(1.5, 2.5)\<close>) differ by less
  than \<open>1e-6\<close>. The statement is false: the absolute difference is not below \<open>1e-6\<close>.
\<close>

theorem C4_breakpoint_counterexample:
  "\<not> \<bar>estimateMassFromRadius (Num (15 / 10)) - Math_pow (Num (15 / 10)) (Num (18 / 10))\<bar>
       < Num (1 / 10 ^ 6)"
proof -
  have "(3 / 2 :: real) powr (9 / 5) < (3 / 2) powr (5 / 2)"
    using powr_three_halves_upper powr_three_halves_lower by linarith
  moreover have "(3 / 2 :: real) powr (5 / 2) - (3 / 2) powr (9 / 5) > 1 / 10 ^ 6"
    using powr_three_halves_upper powr_three_halves_lower by simp
  ultimately show ?thesis
    by (simp add: estimateMassFromRadius_def)
qed

text \<open>
  C4, amended: the estimator jumps at the breakpoint. Below 1.5 Earth radii it returns
  \<open>Math.pow(R, 1.8)\<close>; at exactly 1.5 it returns \<open>Math.pow(1.5, 2.5)\<close>, and the two branch
  values at 1.5 differ by more than 0.45 Earth masses.
\<close>

theorem C4_breakpoint_jump:
  "(r < 15 / 10 \<longrightarrow>
      estimateMassFromRadius (Num r) = Math_pow (Num r) (Num (18 / 10)))
   \<and> estimateMassFromRadius (Num (15 / 10)) = Math_pow (Num (15 / 10)) (Num (25 / 10))
   \<and> Num (45 / 100)
       < Math_pow (Num (15 / 10)) (Num (25 / 10)) - Math_pow (Num (15 / 10)) (Num (18 / 10))"
proof -
  have "(45 / 100 :: real) < (3 / 2) powr (5 / 2) - (3 / 2) powr (9 / 5)"
    using powr_three_halves_upper powr_three_halves_lower by simp
  then show ?thesis
    by (simp add: estimateMassFromRadius_def)
qed

theorem C4_breakpoint_jump_witness:
  "(1 :: real) < 15 / 10
   \<and> estimateMassFromRadius (Num 1) = Math_pow (Num 1) (Num (18 / 10))
   \<and> estimateMassFromRadius (Num (15 / 10)) = Math_pow (Num (15 / 10)) (Num (25 / 10))"
  using C4_breakpoint_jump [of 1] by simp

section \<open>Properties of the physics calculation\<close>

lemma consts_pos:
  "0 < G" "0 < M_SUN" "0 < AU" "0 < R_SUN" "0 < L_SUN" "0 < M_EARTH" "0 < R_EARTH"
  "0 < SIGMA_const"
  by (simp_all add: G_def M_SUN_def AU_def R_SUN_def L_SUN_def M_EARTH_def R_EARTH_def SIGMA_const_def)

lemma semiMajorAxis_value:
  assumes "0 < p" "0 < m"
  shows "calculateSemiMajorAxis (Num p) (Num m)
         = Num (root 3 (G * (m * M_SUN) * (p * 24 * 3600) * (p * 24 * 3600) / (4 * pi * pi)) / AU)"
  using assms consts_pos by (simp add: calculateSemiMajorAxis_def Math_PI_def Let_def)

lemma semiMajorAxis_pos:
  assumes "0 < p" "0 < m"
  shows "Num 0 < calculateSemiMajorAxis (Num p) (Num m)"
proof -
  have "0 < G * (m * M_SUN) * (p * 24 * 3600) * (p * 24 * 3600) / (4 * pi * pi)"
    using assms consts_pos by simp
  then have "0 < root 3 (G * (m * M_SUN) * (p * 24 * 3600) * (p * 24 * 3600) / (4 * pi * pi)) / AU"
    using consts_pos by (simp add: real_root_gt_zero)
  then show ?thesis using assms by (simp add: semiMajorAxis_value)
qed

lemma orbitalPeriod_value:
  assumes "0 < a" "0 < m"
  shows "calculateOrbitalPeriod (Num a) (Num m)
         = Num (sqrt (4 * pi * pi * (a * AU) * (a * AU) * (a * AU) / (G * (m * M_SUN))) / (24 * 3600))"
proof -
  have "0 \<le> 4 * pi * pi * (a * AU) * (a * AU) * (a * AU) / (G * (m * M_SUN))"
    using assms consts_pos by simp
  then show ?thesis
    using assms consts_pos
    by (simp add: calculateOrbitalPeriod_def Math_PI_def Let_def not_less)
qed

lemma kepler_roundtrip:
  assumes "0 < p" "0 < m"
  shows "calculateOrbitalPeriod (calculateSemiMajorAxis (Num p) (Num m)) (Num m) = Num p"
proof -
  define s where "s = p * 24 * 3600"
  define k where "k = G * (m * M_SUN)"
  define x where "x = k * s * s / (4 * pi * pi)"
  define r where "r = root 3 x"
  have spos: "0 < s" unfolding s_def using assms by simp
  have kpos: "0 < k" unfolding k_def using assms consts_pos by simp
  have xpos: "0 < x" unfolding x_def using spos kpos by simp
  have rpos: "0 < r" unfolding r_def using xpos by (simp add: real_root_gt_zero)
  have r3: "r * r * r = x"
    using real_root_pow_pos [of 3 x] xpos by (simp add: r_def power3_eq_cube)
  have sma: "calculateSemiMajorAxis (Num p) (Num m) = Num (r / AU)"
    using assms by (simp add: semiMajorAxis_value r_def x_def k_def s_def)
  have apos: "0 < r / AU" using rpos consts_pos by simp
  have rAU: "r / AU * AU = r" using consts_pos by simp
  have "4 * pi * pi * r * r * r / k = 4 * pi * pi * (r * r * r) / k"
    by (simp add: mult.assoc)
  also have "\<dots> = s * s"
    unfolding r3 x_def using kpos by (simp add: field_simps)
  finally have tsq: "4 * pi * pi * r * r * r / k = s * s" .
  have "calculateOrbitalPeriod (Num (r / AU)) (Num m) = Num (sqrt (s * s) / (24 * 3600))"
    unfolding orbitalPeriod_value [OF apos assms(2)] rAU k_def [symmetric] tsq ..
  also have "sqrt (s * s) = s" using spos by simp
  also have "s / (24 * 3600) = p" by (simp add: s_def)
  finally show ?thesis by (simp add: sma)
qed


lemma density_value:
  assumes "0 < r" "0 < m"
  shows "calculateDensity (Num r) (Num m)
         = Num (m * M_EARTH / (4 / 3 * pi * (r * R_EARTH) * (r * R_EARTH) * (r * R_EARTH)) / 1000)"
  using assms consts_pos by (simp add: calculateDensity_def Math_PI_def Let_def)

lemma earth_density_bounds:
  "3 / 10 \<le> 1 * M_EARTH / (4 / 3 * pi * (1 * R_EARTH) * (1 * R_EARTH) * (1 * R_EARTH)) / 1000"
  "1 * M_EARTH / (4 / 3 * pi * (1 * R_EARTH) * (1 * R_EARTH) * (1 * R_EARTH)) / 1000 \<le> 14"
proof -
  have p3: "2 \<le> pi" by (rule pi_ge_two)
  have p4: "pi < 4" by (rule pi_less_4)
  show "3 / 10 \<le> 1 * M_EARTH / (4 / 3 * pi * (1 * R_EARTH) * (1 * R_EARTH) * (1 * R_EARTH)) / 1000"
    using p3 p4 by (simp add: M_EARTH_def R_EARTH_def field_simps)
  show "1 * M_EARTH / (4 / 3 * pi * (1 * R_EARTH) * (1 * R_EARTH) * (1 * R_EARTH)) / 1000 \<le> 14"
    using p3 p4 by (simp add: M_EARTH_def R_EARTH_def field_simps)
qed

lemmas warn_defs = warn_radius_small_def warn_radius_large_def warn_mass_small_def
  warn_mass_large_def warn_density_low_def warn_density_high_def warn_period_short_def
  warn_period_long_def warn_transit_depth_def earth_sign_def superscript_three_def

lemma validate_earth_like:
  "validatePhysicalPlausibility
     \<lparr> in_orbitalPeriodDays = None, in_semiMajorAxisAU = None,
       in_radiusEarth = Some (Num 1), in_massEarth = Some (Num 1),
       in_starTempK = None, in_starRadiusSolar = None, in_starMassSolar = None,
       in_starLuminositySolar = None, in_transitDepthPPM = None,
       in_transitDurationHours = None \<rparr> = []"
  using earth_density_bounds
  by (simp add: validatePhysicalPlausibility_def density_value Let_def not_less)

lemma validate_small_radius:
  "validatePhysicalPlausibility
     \<lparr> in_orbitalPeriodDays = None, in_semiMajorAxisAU = None,
       in_radiusEarth = Some (Num (3 / 10)), in_massEarth = None,
       in_starTempK = None, in_starRadiusSolar = None, in_starMassSolar = None,
       in_starLuminositySolar = None, in_transitDepthPPM = None,
       in_transitDurationHours = None \<rparr> = [warn_radius_small]"
  by (simp add: validatePhysicalPlausibility_def)

lemma radius_text: "str_includes warn_radius_small ''radius''"
  by (simp add: warn_radius_small_def)


lemma guard_lemmas:
  "x \<le> Num 0 \<or> y \<le> Num 0 \<Longrightarrow> calculateSemiMajorAxis x y = NaN"
  "x \<le> Num 0 \<or> y \<le> Num 0 \<Longrightarrow> calculateOrbitalPeriod x y = NaN"
  "x \<le> Num 0 \<or> y \<le> Num 0 \<Longrightarrow> calculateStellarLuminosity x y = NaN"
  "x \<le> Num 0 \<or> y \<le> Num 0 \<or> z \<le> Num 0
     \<Longrightarrow> calculateEquilibriumTemperature x y z alb = NaN"
  "x \<le> Num 0 \<or> y \<le> Num 0 \<Longrightarrow> calculateSurfaceGravity x y = NaN"
  "x \<le> Num 0 \<or> y \<le> Num 0 \<Longrightarrow> calculateEscapeVelocity x y = NaN"
  "x \<le> Num 0 \<or> y \<le> Num 0 \<Longrightarrow> calculateDensity x y = NaN"
  by (simp_all add: calculateSemiMajorAxis_def calculateOrbitalPeriod_def
      calculateStellarLuminosity_def calculateEquilibriumTemperature_def
      calculateSurfaceGravity_def calculateEscapeVelocity_def calculateDensity_def)

lemma validate_rules:
  "warn_radius_small \<in> set (validatePhysicalPlausibility inp)
     \<longleftrightarrow> (\<exists>r. in_radiusEarth inp = Some r \<and> r < Num (5 / 10))"
  "warn_radius_large \<in> set (validatePhysicalPlausibility inp)
     \<longleftrightarrow> (\<exists>r. in_radiusEarth inp = Some r \<and> Num 10 < r)"
  "warn_mass_small \<in> set (validatePhysicalPlausibility inp)
     \<longleftrightarrow> (\<exists>m. in_massEarth inp = Some m \<and> m < Num (1 / 10))"
  "warn_mass_large \<in> set (validatePhysicalPlausibility inp)
     \<longleftrightarrow> (\<exists>m. in_massEarth inp = Some m \<and> Num 1000 < m)"
  "warn_density_low \<in> set (validatePhysicalPlausibility inp)
     \<longleftrightarrow> (\<exists>r m. in_radiusEarth inp = Some r \<and> in_massEarth inp = Some m
                \<and> calculateDensity r m < Num (3 / 10))"
  "warn_density_high \<in> set (validatePhysicalPlausibility inp)
     \<longleftrightarrow> (\<exists>r m. in_radiusEarth inp = Some r \<and> in_massEarth inp = Some m
                \<and> Num 14 < calculateDensity r m)"
  "warn_period_short \<in> set (validatePhysicalPlausibility inp)
     \<longleftrightarrow> (\<exists>p. in_orbitalPeriodDays inp = Some p \<and> p < Num (1 / 10))"
  "warn_period_long \<in> set (validatePhysicalPlausibility inp)
     \<longleftrightarrow> (\<exists>p. in_orbitalPeriodDays inp = Some p \<and> Num 10000 < p)"
  "warn_transit_depth \<in> set (validatePhysicalPlausibility inp)
     \<longleftrightarrow> (\<exists>d. in_transitDepthPPM inp = Some d \<and> Num 10000 < d)"
  by (cases "in_radiusEarth inp"; cases "in_massEarth inp"; cases "in_orbitalPeriodDays inp";
      cases "in_transitDepthPPM inp";
      simp add: validatePhysicalPlausibility_def warn_defs Let_def)+

lemma calculate_warnings:
  "out_warnings (calculate inp) = validatePhysicalPlausibility inp"
  "out_isPhysicallyPlausible (calculate inp) \<longleftrightarrow> out_warnings (calculate inp) = []"
  by (simp_all add: calculate_def Let_def)

text \<open>
  C5: every rule of the validator runs and contributes its warning exactly when its condition
  holds (there is no early exit); the composite calculation reports the validator's
  warnings and its plausibility verdict is true iff that list is empty. An input with only
  \<open>radiusEarth = 0.3\<close> yields one warning, whose text contains \<open>radius\<close>; the Earth-like input
  \<open>radiusEarth = 1\<close>, \<open>massEarth = 1\<close> yields no warning.
\<close>

theorem C5_plausibility:
  "(warn_radius_small \<in> set (validatePhysicalPlausibility inp)
     \<longleftrightarrow> (\<exists>r. in_radiusEarth inp = Some r \<and> r < Num (5 / 10)))
   \<and> (warn_radius_large \<in> set (validatePhysicalPlausibility inp)
     \<longleftrightarrow> (\<exists>r. in_radiusEarth inp = Some r \<and> Num 10 < r))
   \<and> (warn_mass_small \<in> set (validatePhysicalPlausibility inp)
     \<longleftrightarrow> (\<exists>m. in_massEarth inp = Some m \<and> m < Num (1 / 10)))
   \<and> (warn_mass_large \<in> set (validatePhysicalPlausibility inp)
     \<longleftrightarrow> (\<exists>m. in_massEarth inp = Some m \<and> Num 1000 < m))
   \<and> (warn_density_low \<in> set (validatePhysicalPlausibility inp)
     \<longleftrightarrow> (\<exists>r m. in_radiusEarth inp = Some r \<and> in_massEarth inp = Some m
                \<and> calculateDensity r m < Num (3 / 10)))
   \<and> (warn_density_high \<in> set (validatePhysicalPlausibility inp)
     \<longleftrightarrow> (\<exists>r m. in_radiusEarth inp = Some r \<and> in_massEarth inp = Some m
                \<and> Num 14 < calculateDensity r m))
   \<and> (warn_period_short \<in> set (validatePhysicalPlausibility inp)
     \<longleftrightarrow> (\<exists>p. in_orbitalPeriodDays inp = Some p \<and> p < Num (1 / 10)))
   \<and> (warn_period_long \<in> set (validatePhysicalPlausibility inp)
     \<longleftrightarrow> (\<exists>p. in_orbitalPeriodDays inp = Some p \<and> Num 10000 < p))
   \<and> (warn_transit_depth \<in> set (validatePhysicalPlausibility inp)
     \<longleftrightarrow> (\<exists>d. in_transitDepthPPM inp = Some d \<and> Num 10000 < d))
   \<and> out_warnings (calculate inp) = validatePhysicalPlausibility inp
   \<and> (out_isPhysicallyPlausible (calculate inp) \<longleftrightarrow> out_warnings (calculate inp) = [])
   \<and> validatePhysicalPlausibility
        \<lparr> in_orbitalPeriodDays = None, in_semiMajorAxisAU = None,
          in_radiusEarth = Some (Num (3 / 10)), in_massEarth = None,
          in_starTempK = None, in_starRadiusSolar = None, in_starMassSolar = None,
          in_starLuminositySolar = None, in_transitDepthPPM = None,
          in_transitDurationHours = None \<rparr> = [warn_radius_small]
   \<and> str_includes warn_radius_small ''radius''
   \<and> validatePhysicalPlausibility
        \<lparr> in_orbitalPeriodDays = None, in_semiMajorAxisAU = None,
          in_radiusEarth = Some (Num 1), in_massEarth = Some (Num 1),
          in_starTempK = None, in_starRadiusSolar = None, in_starMassSolar = None,
          in_starLuminositySolar = None, in_transitDepthPPM = None,
          in_transitDurationHours = None \<rparr> = []"
  unfolding validate_rules calculate_warnings(1)
  using calculate_warnings(2) [of inp] validate_small_radius validate_earth_like radius_text
  by (simp add: calculate_warnings(1))

text \<open>
  C8: the composite calculation never overwrites what the caller provides, and a default
  stands only for an absent field. A provided period is returned unchanged, and so is a
  provided semi-major axis. Every field of the result is the formula of the source applied
  to the resolved inputs, where a resolved input is the provided value when the field is
  present and the default otherwise (\<open>nullish\<close>, the operator \<open>??\<close>): star mass 1, star
  radius 1, star temperature 5778, period 365, axis 1, planet radius 1; an absent period or
  axis is computed from the other one when that is present, an absent luminosity from the
  resolved star radius and temperature, an absent mass from the resolved planet radius.
\<close>

theorem C8_provided_fields_kept:
  "(in_orbitalPeriodDays inp = Some p \<longrightarrow> out_orbitalPeriodDays (calculate inp) = p)
   \<and> (in_semiMajorAxisAU inp = Some a \<longrightarrow> out_semiMajorAxisAU (calculate inp) = a)
   \<and> nullish (Some v) d = v \<and> nullish None d = d
   \<and> out_orbitalPeriodDays (calculate inp) =
       (case in_orbitalPeriodDays inp of
          Some p' \<Rightarrow> p'
        | None \<Rightarrow>
            (case in_semiMajorAxisAU inp of
               Some a' \<Rightarrow> calculateOrbitalPeriod a' (nullish (in_starMassSolar inp) (Num 1))
             | None \<Rightarrow> Num 365))
   \<and> out_semiMajorAxisAU (calculate inp) =
       (case in_semiMajorAxisAU inp of
          Some a' \<Rightarrow> a'
        | None \<Rightarrow>
            (case in_orbitalPeriodDays inp of
               Some p' \<Rightarrow> calculateSemiMajorAxis p' (nullish (in_starMassSolar inp) (Num 1))
             | None \<Rightarrow> Num 1))
   \<and> out_starRadiusM (calculate inp) = nullish (in_starRadiusSolar inp) (Num 1) * Num R_SUN
   \<and> out_starLuminositySolar (calculate inp) =
       (case in_starLuminositySolar inp of
          Some l \<Rightarrow> l
        | None \<Rightarrow>
            calculateStellarLuminosity (nullish (in_starRadiusSolar inp) (Num 1))
              (nullish (in_starTempK inp) (Num 5778)))
   \<and> out_equilibriumTemperatureK (calculate inp) =
       calculateEquilibriumTemperature (nullish (in_starTempK inp) (Num 5778))
         (nullish (in_starRadiusSolar inp) (Num 1)) (out_semiMajorAxisAU (calculate inp))
         (Num (3 / 10))
   \<and> out_habitableZoneInnerAU (calculate inp) =
       fst (calculateHabitableZone (out_starLuminositySolar (calculate inp)))
   \<and> out_habitableZoneOuterAU (calculate inp) =
       snd (calculateHabitableZone (out_starLuminositySolar (calculate inp)))
   \<and> out_inHabitableZone (calculate inp) =
       (out_habitableZoneInnerAU (calculate inp) \<le> out_semiMajorAxisAU (calculate inp)
        \<and> out_semiMajorAxisAU (calculate inp) \<le> out_habitableZoneOuterAU (calculate inp))
   \<and> out_surfaceGravityMS2 (calculate inp) =
       calculateSurfaceGravity (nullish (in_radiusEarth inp) (Num 1))
         (case in_massEarth inp of
            Some m \<Rightarrow> m
          | None \<Rightarrow> estimateMassFromRadius (nullish (in_radiusEarth inp) (Num 1)))
   \<and> out_escapeVelocityMS (calculate inp) =
       calculateEscapeVelocity (nullish (in_radiusEarth inp) (Num 1))
         (case in_massEarth inp of
            Some m \<Rightarrow> m
          | None \<Rightarrow> estimateMassFromRadius (nullish (in_radiusEarth inp) (Num 1)))
   \<and> out_densityGCM3 (calculate inp) =
       calculateDensity (nullish (in_radiusEarth inp) (Num 1))
         (case in_massEarth inp of
            Some m \<Rightarrow> m
          | None \<Rightarrow> estimateMassFromRadius (nullish (in_radiusEarth inp) (Num 1)))
   \<and> out_warnings (calculate inp) = validatePhysicalPlausibility inp
   \<and> out_isPhysicallyPlausible (calculate inp) = (validatePhysicalPlausibility inp = [])"
  by (simp add: calculate_def Let_def split: option.splits)

theorem C8_provided_fields_kept_witness:
  "out_orbitalPeriodDays (calculate 
     \<lparr> in_orbitalPeriodDays = Some (Num 10), in_semiMajorAxisAU = Some (Num 2),
       in_radiusEarth = Some (Num 3), in_massEarth = None,
       in_starTempK = Some (Num 4000), in_starRadiusSolar = None,
       in_starMassSolar = Some (Num 8), in_starLuminositySolar = None,
       in_transitDepthPPM = None, in_transitDurationHours = None \<rparr>) = Num 10
   \<and> out_semiMajorAxisAU (calculate 
     \<lparr> in_orbitalPeriodDays = Some (Num 10), in_semiMajorAxisAU = Some (Num 2),
       in_radiusEarth = Some (Num 3), in_massEarth = None,
       in_starTempK = Some (Num 4000), in_starRadiusSolar = None,
       in_starMassSolar = Some (Num 8), in_starLuminositySolar = None,
       in_transitDepthPPM = None, in_transitDurationHours = None \<rparr>) = Num 2
   \<and> out_starRadiusM (calculate 
     \<lparr> in_orbitalPeriodDays = Some (Num 10), in_semiMajorAxisAU = Some (Num 2),
       in_radiusEarth = Some (Num 3), in_massEarth = None,
       in_starTempK = Some (Num 4000), in_starRadiusSolar = None,
       in_starMassSolar = Some (Num 8), in_starLuminositySolar = None,
       in_transitDepthPPM = None, in_transitDurationHours = None \<rparr>) = Num 1 * Num R_SUN
   \<and> out_starLuminositySolar (calculate 
     \<lparr> in_orbitalPeriodDays = Some (Num 10), in_semiMajorAxisAU = Some (Num 2),
       in_radiusEarth = Some (Num 3), in_massEarth = None,
       in_starTempK = Some (Num 4000), in_starRadiusSolar = None,
       in_starMassSolar = Some (Num 8), in_starLuminositySolar = None,
       in_transitDepthPPM = None, in_transitDurationHours = None \<rparr>)
       = calculateStellarLuminosity (Num 1) (Num 4000)
   \<and> out_equilibriumTemperatureK (calculate 
     \<lparr> in_orbitalPeriodDays = Some (Num 10), in_semiMajorAxisAU = Some (Num 2),
       in_radiusEarth = Some (Num 3), in_massEarth = None,
       in_starTempK = Some (Num 4000), in_starRadiusSolar = None,
       in_starMassSolar = Some (Num 8), in_starLuminositySolar = None,
       in_transitDepthPPM = None, in_transitDurationHours = None \<rparr>)
       = calculateEquilibriumTemperature (Num 4000) (Num 1) (Num 2) (Num (3 / 10))
   \<and> out_densityGCM3 (calculate 
     \<lparr> in_orbitalPeriodDays = Some (Num 10), in_semiMajorAxisAU = Some (Num 2),
       in_radiusEarth = Some (Num 3), in_massEarth = None,
       in_starTempK = Some (Num 4000), in_starRadiusSolar = None,
       in_starMassSolar = Some (Num 8), in_starLuminositySolar = None,
       in_transitDepthPPM = None, in_transitDurationHours = None \<rparr>)
       = calculateDensity (Num 3) (estimateMassFromRadius (Num 3))"
  using C8_provided_fields_kept [where inp = "
     \<lparr> in_orbitalPeriodDays = Some (Num 10), in_semiMajorAxisAU = Some (Num 2),
       in_radiusEarth = Some (Num 3), in_massEarth = None,
       in_starTempK = Some (Num 4000), in_starRadiusSolar = None,
       in_starMassSolar = Some (Num 8), in_starLuminositySolar = None,
       in_transitDepthPPM = None, in_transitDurationHours = None \<rparr>" and p = "Num 10" and a = "Num 2"]
  by simp

section \<open>Properties of the double-precision round trip\<close>

lemma round_even_near: "\<bar>of_int (round_even y) - y\<bar> \<le> 1 / 2"
proof -
  have "of_int \<lfloor>y\<rfloor> \<le> y" "y < of_int \<lfloor>y\<rfloor> + 1" by linarith+
  then show ?thesis
    by (auto simp: round_even_def Let_def)
qed

lemma round_even_ge: "of_int n \<le> y \<Longrightarrow> n \<le> round_even y"
proof -
  assume "of_int n \<le> y"
  then have "n \<le> \<lfloor>y\<rfloor>" by (simp add: le_floor_iff)
  moreover have "\<lfloor>y\<rfloor> \<le> round_even y" by (auto simp: round_even_def Let_def)
  ultimately show ?thesis by linarith
qed

lemma floor_log_le:
  assumes "0 < x"
  shows "2 powr of_int \<lfloor>log 2 x\<rfloor> \<le> x"
proof -
  have "of_int \<lfloor>log 2 x\<rfloor> \<le> log 2 x" by simp
  then have "2 powr of_int \<lfloor>log 2 x\<rfloor> \<le> 2 powr log 2 x" by simp
  then show ?thesis using assms by simp
qed

lemma round_double_steps:
  assumes xpos: "0 < x" and e_lo: "- 1022 \<le> \<lfloor>log 2 x\<rfloor>"
  defines "q \<equiv> (2 :: real) powr (of_int \<lfloor>log 2 x\<rfloor> - 52)"
  defines "y \<equiv> q * of_int (round_even (x / q))"
  shows "round_double x = (if 2 powr 1024 \<le> \<bar>y\<bar> then DInf False else DFin y)"
    and "\<bar>y - x\<bar> \<le> q / 2"
    and "q * 2 powr 52 = 2 powr of_int \<lfloor>log 2 x\<rfloor>"
    and "2 powr of_int \<lfloor>log 2 x\<rfloor> \<le> y"
proof -
  have qpos: "0 < q" by (simp add: q_def)
  have m: "max \<lfloor>log 2 x\<rfloor> (- 1022) = \<lfloor>log 2 x\<rfloor>" using e_lo by simp
  show "round_double x = (if 2 powr 1024 \<le> \<bar>y\<bar> then DInf False else DFin y)"
    using xpos unfolding round_double_def Let_def y_def q_def
    by (simp only: m abs_of_pos [OF xpos]) simp
  have "\<bar>of_int (round_even (x / q)) - x / q\<bar> \<le> 1 / 2" by (rule round_even_near)
  then have "\<bar>q * (of_int (round_even (x / q)) - x / q)\<bar> \<le> q * (1 / 2)"
    using qpos by (simp add: abs_mult)
  moreover have "q * (of_int (round_even (x / q)) - x / q) = y - x"
    using qpos by (simp add: y_def field_simps)
  ultimately show "\<bar>y - x\<bar> \<le> q / 2" by simp
  show q52: "q * 2 powr 52 = 2 powr of_int \<lfloor>log 2 x\<rfloor>"
    unfolding q_def by (simp add: powr_diff)
  have "2 powr of_int \<lfloor>log 2 x\<rfloor> \<le> x" using xpos by (rule floor_log_le)
  then have "q * 2 powr 52 \<le> x" using q52 by simp
  then have "2 powr 52 \<le> x / q" using qpos by (simp add: field_simps)
  moreover have "(2 :: real) powr 52 = of_int (2 ^ 52)" by simp
  ultimately have "of_int (2 ^ 52) \<le> x / q" by simp
  then have "2 ^ 52 \<le> round_even (x / q)" by (rule round_even_ge)
  then have "of_int (2 ^ 52) \<le> (of_int (round_even (x / q)) :: real)" by (simp only: of_int_le_iff)
  then have "2 powr 52 \<le> (of_int (round_even (x / q)) :: real)"
    using \<open>(2 :: real) powr 52 = of_int (2 ^ 52)\<close> by simp
  then have "q * 2 powr 52 \<le> y" unfolding y_def using qpos by simp
  then show "2 powr of_int \<lfloor>log 2 x\<rfloor> \<le> y" using q52 by simp
qed

lemma pow2_pos [simp]: "0 < pow2 k"
  by (simp add: pow2_def)

lemma pow2_add: "pow2 (j + k) = pow2 j * pow2 k"
  by (simp add: pow2_def powr_add)

lemma pow2_mono: "j \<le> k \<Longrightarrow> pow2 j \<le> pow2 k"
  by (simp add: pow2_def)

lemma pow2_strict_mono: "j < k \<Longrightarrow> pow2 j < pow2 k"
  by (simp add: pow2_def)

lemma pow2_double: "2 * pow2 k = pow2 (k + 1)"
  by (simp add: pow2_def powr_add)

lemma unit_w_bounds: "0 < unit_w" "unit_w < 1" "unit_w \<le> 1"
  by (simp_all add: unit_w_def)

lemma unit_w_pow_bounds: "0 < unit_w ^ n" "unit_w ^ n \<le> 1"
  using unit_w_bounds by (simp_all add: power_le_one)

lemma unit_w_pow_lower: "1 - real n / 2 ^ 53 \<le> unit_w ^ n"
proof -
  have "1 + real n * (- (1 / 2 ^ 53)) \<le> (1 + (- (1 / 2 ^ 53))) ^ n"
    by (rule Bernoulli_inequality) simp
  then show ?thesis by (simp add: unit_w_def)
qed

lemma unit_w_pow_half: "n \<le> 200 \<Longrightarrow> 1 / 2 \<le> unit_w ^ n"
proof -
  assume "n \<le> 200"
  then have "real n / 2 ^ 53 \<le> 200 / 2 ^ 53" by (simp add: divide_right_mono)
  then have "1 / 2 \<le> 1 - real n / 2 ^ 53" by simp
  then show ?thesis using unit_w_pow_lower [of n] by linarith
qed

lemma round_double_normal:
  assumes lo: "pow2 (- 1022) \<le> x" and hi: "x \<le> pow2 1022"
  shows "\<exists>y. round_double x = DFin y \<and> approx 1 x y"
proof -
  have xpos: "0 < x" using lo pow2_pos [of "- 1022"] by linarith
  have "- 1022 \<le> log 2 x" using lo xpos by (simp add: pow2_def le_log_iff)
  then have e_lo: "- 1022 \<le> \<lfloor>log 2 x\<rfloor>" by (simp add: le_floor_iff)
  define q where "q = (2 :: real) powr (of_int \<lfloor>log 2 x\<rfloor> - 52)"
  define y where "y = q * of_int (round_even (x / q))"
  note steps = round_double_steps [OF xpos e_lo, folded q_def, folded y_def]
  have pe: "2 powr of_int \<lfloor>log 2 x\<rfloor> \<le> x" using xpos by (rule floor_log_le)
  have "q / 2 = 2 powr of_int \<lfloor>log 2 x\<rfloor> / 2 ^ 53"
    using steps(3) by (simp add: field_simps)
  also have "\<dots> \<le> x / 2 ^ 53" using pe by (simp add: divide_right_mono)
  finally have err: "\<bar>y - x\<bar> \<le> x / 2 ^ 53" using steps(2) by linarith
  have "\<bar>y\<bar> \<le> x + x / 2 ^ 53" using err xpos by linarith
  also have "\<dots> \<le> 2 * x" using xpos by simp
  also have "\<dots> \<le> 2 * pow2 1022" using hi by simp
  also have "\<dots> = pow2 1023" by (simp add: pow2_double)
  also have "\<dots> < pow2 1024" by (rule pow2_strict_mono) simp
  finally have "\<not> 2 powr 1024 \<le> \<bar>y\<bar>" by (simp add: pow2_def del: powr_numeral)
  then have rd: "round_double x = DFin y" using steps(1) by (simp del: powr_numeral)
  have "x - x / 2 ^ 53 \<le> y" using err by linarith
  then have "x * unit_w \<le> y" by (simp add: unit_w_def algebra_simps)
  moreover have "y * unit_w \<le> x"
  proof -
    have "y \<le> x + x / 2 ^ 53" using err by linarith
    then have "y \<le> x * (1 + 1 / 2 ^ 53)" by (simp add: algebra_simps)
    then have "y * unit_w \<le> x * (1 + 1 / 2 ^ 53) * unit_w"
      using unit_w_bounds(1) by (simp add: mult_right_mono)
    also have "\<dots> = x * (1 - (1 / 2 ^ 53) * (1 / 2 ^ 53))"
      by (simp add: unit_w_def field_simps)
    also have "\<dots> \<le> x" using xpos by (simp add: mult_le_cancel_left1)
    finally show ?thesis .
  qed
  ultimately have "approx 1 x y" using xpos by (simp add: approx_def)
  with rd show ?thesis by blast
qed

lemma round_double_overflow:
  assumes "pow2 1024 \<le> x"
  shows "round_double x = DInf False"
proof -
  have xpos: "0 < x" using assms pow2_pos [of 1024] by linarith
  have "1024 \<le> log 2 x" using assms xpos by (simp add: pow2_def le_log_iff del: powr_numeral)
  then have e_lo: "1024 \<le> \<lfloor>log 2 x\<rfloor>" by (simp add: le_floor_iff)
  then have e_lo': "- 1022 \<le> \<lfloor>log 2 x\<rfloor>" by linarith
  define q where "q = (2 :: real) powr (of_int \<lfloor>log 2 x\<rfloor> - 52)"
  define y where "y = q * of_int (round_even (x / q))"
  note steps = round_double_steps [OF xpos e_lo', folded q_def, folded y_def]
  have "pow2 1024 \<le> pow2 \<lfloor>log 2 x\<rfloor>" using e_lo by (rule pow2_mono)
  then have "pow2 1024 \<le> \<bar>y\<bar>" using steps(4) by (simp add: pow2_def del: powr_numeral)
  then have "2 powr 1024 \<le> \<bar>y\<bar>" by (simp add: pow2_def del: powr_numeral)
  then show ?thesis using steps(1) by (simp del: powr_numeral)
qed

lemma approx_pos: "approx n x y \<Longrightarrow> 0 < x \<and> 0 < y"
proof -
  assume a: "approx n x y"
  then have "0 < x * unit_w ^ n" using unit_w_pow_bounds(1) [of n] by (simp add: approx_def)
  with a show ?thesis by (auto simp: approx_def)
qed

lemma approx_refl: "0 < x \<Longrightarrow> approx 0 x x"
  by (simp add: approx_def)

lemma approx_trans:
  assumes "approx n x y" "approx m y z"
  shows "approx (n + m) x z"
proof -
  have w: "0 \<le> unit_w ^ n" "0 \<le> unit_w ^ m" using unit_w_pow_bounds(1) by (simp_all add: less_imp_le)
  have "x * unit_w ^ (n + m) = (x * unit_w ^ n) * unit_w ^ m" by (simp add: power_add)
  also have "\<dots> \<le> y * unit_w ^ m" using assms(1) w by (simp add: approx_def mult_right_mono)
  also have "\<dots> \<le> z" using assms(2) by (simp add: approx_def)
  finally have 1: "x * unit_w ^ (n + m) \<le> z" .
  have "z * unit_w ^ (n + m) = (z * unit_w ^ m) * unit_w ^ n" by (simp add: power_add)
  also have "\<dots> \<le> y * unit_w ^ n" using assms(2) w by (simp add: approx_def mult_right_mono)
  also have "\<dots> \<le> x" using assms(1) by (simp add: approx_def)
  finally have 2: "z * unit_w ^ (n + m) \<le> x" .
  from 1 2 assms(1) show ?thesis by (simp add: approx_def)
qed

lemma approx_mult:
  assumes "approx n x y" "approx m x' y'"
  shows "approx (n + m) (x * x') (y * y')"
proof -
  note p = approx_pos [OF assms(1)] approx_pos [OF assms(2)]
  have w: "0 < unit_w ^ n" "0 < unit_w ^ m" using unit_w_pow_bounds(1) by simp_all
  have "(x * x') * unit_w ^ (n + m) = (x * unit_w ^ n) * (x' * unit_w ^ m)"
    by (simp add: power_add)
  also have "\<dots> \<le> y * y'"
    using assms p w by (intro mult_mono) (simp_all add: approx_def less_imp_le)
  finally have 1: "(x * x') * unit_w ^ (n + m) \<le> y * y'" .
  have "(y * y') * unit_w ^ (n + m) = (y * unit_w ^ n) * (y' * unit_w ^ m)"
    by (simp add: power_add)
  also have "\<dots> \<le> x * x'"
    using assms p w by (intro mult_mono) (simp_all add: approx_def less_imp_le)
  finally have 2: "(y * y') * unit_w ^ (n + m) \<le> x * x'" .
  from 1 2 p show ?thesis by (simp add: approx_def)
qed

lemma approx_inverse:
  assumes "approx m x y"
  shows "approx m (1 / x) (1 / y)"
proof -
  note p = approx_pos [OF assms]
  have "(1 / x) * unit_w ^ m \<le> 1 / y"
    using assms p by (simp add: approx_def field_simps)
  moreover have "(1 / y) * unit_w ^ m \<le> 1 / x"
    using assms p by (simp add: approx_def field_simps)
  ultimately show ?thesis using p by (simp add: approx_def)
qed

lemma approx_div:
  assumes "approx n x y" "approx m x' y'"
  shows "approx (n + m) (x / x') (y / y')"
  using approx_mult [OF assms(1) approx_inverse [OF assms(2)]] by simp

lemma approx_sqrt:
  assumes "approx n x y"
  shows "approx n (sqrt x) (sqrt y)"
proof -
  note p = approx_pos [OF assms]
  have w: "0 < unit_w ^ n" "unit_w ^ n \<le> 1" using unit_w_pow_bounds by simp_all
  have sq: "unit_w ^ n \<le> sqrt (unit_w ^ n)"
  proof -
    have "unit_w ^ n * unit_w ^ n \<le> unit_w ^ n * 1"
      using w by (intro mult_left_mono) simp_all
    then have "(unit_w ^ n)\<^sup>2 \<le> unit_w ^ n" by (simp add: power2_eq_square)
    then have "sqrt ((unit_w ^ n)\<^sup>2) \<le> sqrt (unit_w ^ n)" by (simp only: real_sqrt_le_iff)
    then show ?thesis using w by simp
  qed
  have "sqrt x * unit_w ^ n \<le> sqrt x * sqrt (unit_w ^ n)"
    using sq p by (simp add: mult_left_mono)
  also have "\<dots> = sqrt (x * unit_w ^ n)" by (simp add: real_sqrt_mult)
  also have "\<dots> \<le> sqrt y" using assms by (simp add: approx_def)
  finally have 1: "sqrt x * unit_w ^ n \<le> sqrt y" .
  have "sqrt y * unit_w ^ n \<le> sqrt y * sqrt (unit_w ^ n)"
    using sq p by (simp add: mult_left_mono)
  also have "\<dots> = sqrt (y * unit_w ^ n)" by (simp add: real_sqrt_mult)
  also have "\<dots> \<le> sqrt x" using assms by (simp add: approx_def)
  finally have 2: "sqrt y * unit_w ^ n \<le> sqrt x" .
  from 1 2 p show ?thesis by (simp add: approx_def)
qed

lemma approx_root3:
  assumes "approx n x y"
  shows "approx n (root 3 x) (root 3 y)"
proof -
  note p = approx_pos [OF assms]
  have w: "0 < unit_w ^ n" "unit_w ^ n \<le> 1" using unit_w_pow_bounds by simp_all
  have rt: "unit_w ^ n \<le> root 3 (unit_w ^ n)"
  proof -
    have "(unit_w ^ n) ^ 3 \<le> unit_w ^ n"
      using w by (metis less_imp_le power_decreasing power_one_right one_le_numeral)
    then have "root 3 ((unit_w ^ n) ^ 3) \<le> root 3 (unit_w ^ n)" by simp
    then show ?thesis using w by (simp add: real_root_power_cancel)
  qed
  have "root 3 x * unit_w ^ n \<le> root 3 x * root 3 (unit_w ^ n)"
    using rt p by (simp add: mult_left_mono)
  also have "\<dots> = root 3 (x * unit_w ^ n)" by (simp add: real_root_mult)
  also have "\<dots> \<le> root 3 y" using assms by (simp add: approx_def)
  finally have 1: "root 3 x * unit_w ^ n \<le> root 3 y" .
  have "root 3 y * unit_w ^ n \<le> root 3 y * root 3 (unit_w ^ n)"
    using rt p by (simp add: mult_left_mono)
  also have "\<dots> = root 3 (y * unit_w ^ n)" by (simp add: real_root_mult)
  also have "\<dots> \<le> root 3 x" using assms by (simp add: approx_def)
  finally have 2: "root 3 y * unit_w ^ n \<le> root 3 x" .
  from 1 2 p show ?thesis by (simp add: approx_def)
qed

lemma inrange_pos: "inrange k x \<Longrightarrow> 0 < x"
  unfolding inrange_def using pow2_pos [of "- int k"] by linarith

lemma inrange_mult:
  assumes "inrange j x" "inrange k y"
  shows "inrange (j + k) (x * y)"
proof -
  note p = inrange_pos [OF assms(1)] inrange_pos [OF assms(2)]
  have "pow2 (- int (j + k)) = pow2 (- int j) * pow2 (- int k)"
    by (simp add: pow2_add [symmetric])
  also have "\<dots> \<le> x * y"
    using assms p by (intro mult_mono) (simp_all add: inrange_def less_imp_le)
  finally have 1: "pow2 (- int (j + k)) \<le> x * y" .
  have "x * y \<le> pow2 (int j) * pow2 (int k)"
    using assms p by (intro mult_mono) (simp_all add: inrange_def less_imp_le)
  also have "\<dots> = pow2 (int (j + k))" by (simp add: pow2_add [symmetric])
  finally show ?thesis using 1 by (simp add: inrange_def)
qed

lemma pow2_inverse: "1 / pow2 k = pow2 (- k)"
  by (simp add: pow2_def powr_minus divide_inverse)

lemma inrange_inverse:
  assumes "inrange k y"
  shows "inrange k (1 / y)"
proof -
  note p = inrange_pos [OF assms]
  have "1 / pow2 (int k) \<le> 1 / y" using assms p by (simp add: inrange_def frac_le)
  moreover have "1 / y \<le> 1 / pow2 (- int k)" using assms p by (simp add: inrange_def frac_le)
  ultimately show ?thesis by (simp add: inrange_def pow2_inverse)
qed

lemma inrange_div:
  assumes "inrange j x" "inrange k y"
  shows "inrange (j + k) (x / y)"
  using inrange_mult [OF assms(1) inrange_inverse [OF assms(2)]] by simp

lemma inrange_weaken: "inrange j x \<Longrightarrow> j \<le> k \<Longrightarrow> inrange k x"
proof -
  assume a: "inrange j x" "j \<le> k"
  then have "pow2 (- int k) \<le> pow2 (- int j)" "pow2 (int j) \<le> pow2 (int k)"
    by (simp_all add: pow2_mono)
  with a show ?thesis unfolding inrange_def by linarith
qed

lemma pow2_zero: "pow2 0 = 1"
  by (simp add: pow2_def)

lemma pow2_le_one: "k \<le> 0 \<Longrightarrow> pow2 k \<le> 1"
  using pow2_mono [of k 0] by (simp add: pow2_zero)

lemma pow2_ge_one: "0 \<le> k \<Longrightarrow> 1 \<le> pow2 k"
  using pow2_mono [of 0 k] by (simp add: pow2_zero)

lemma approx_normal:
  assumes a: "approx n x y" and r: "inrange k x" and n: "n \<le> 200" and k: "k \<le> 1021"
  shows "pow2 (- 1022) \<le> y" "y \<le> pow2 1022"
proof -
  note p = approx_pos [OF a]
  have h: "1 / 2 \<le> unit_w ^ n" using n by (rule unit_w_pow_half)
  have "pow2 (- 1022) \<le> pow2 (- int k - 1)" using k by (intro pow2_mono) simp
  also have "\<dots> = pow2 (- int k) * (1 / 2)"
    by (simp add: pow2_def powr_diff)
  also have "\<dots> \<le> x * unit_w ^ n"
    using r h p by (intro mult_mono) (simp_all add: inrange_def less_imp_le)
  also have "\<dots> \<le> y" using a by (simp add: approx_def)
  finally show "pow2 (- 1022) \<le> y" .
  have "y * (1 / 2) \<le> y * unit_w ^ n" using h p by (intro mult_left_mono) simp_all
  also have "\<dots> \<le> x" using a by (simp add: approx_def)
  also have "\<dots> \<le> pow2 (int k)" using r by (simp add: inrange_def)
  finally have "y \<le> 2 * pow2 (int k)" by simp
  also have "\<dots> = pow2 (int k + 1)" by (rule pow2_double)
  also have "\<dots> \<le> pow2 1022" using k by (intro pow2_mono) simp
  finally show "y \<le> pow2 1022" .
qed

lemma tracks_value:
  assumes "tracks n k x d"
  obtains y where "d = DFin y" "approx n x y" "0 < y" "inrange k x"
  using assms approx_pos by (auto simp: tracks_def)

lemma tracks_input: "inrange k p \<Longrightarrow> tracks 0 k p (DFin p)"
  by (simp add: tracks_def approx_refl inrange_pos)

lemma tracks_const: "inrange k c \<Longrightarrow> k \<le> 1021 \<Longrightarrow> tracks 1 k c (round_double c)"
proof -
  assume r: "inrange k c" and k: "k \<le> 1021"
  have "approx 0 c c" using r by (simp add: approx_refl inrange_pos)
  from approx_normal [OF this r _ k] have "pow2 (- 1022) \<le> c" "c \<le> pow2 1022" by simp_all
  from round_double_normal [OF this] r show ?thesis by (simp add: tracks_def)
qed

lemma tracks_round:
  assumes a: "approx n x y" and r: "inrange k x" and n: "n \<le> 200" and k: "k \<le> 1021"
  shows "tracks (n + 1) k x (round_double y)"
proof -
  from round_double_normal [OF approx_normal [OF a r n k]]
  obtain z where z: "round_double y = DFin z" "approx 1 y z" by blast
  from approx_trans [OF a z(2)] z(1) r show ?thesis by (auto simp: tracks_def)
qed

lemma tracks_mult:
  assumes "tracks n j x d" "tracks m k x' d'" "n + m \<le> 200" "j + k \<le> 1021"
  shows "tracks (n + m + 1) (j + k) (x * x') (d * d')"
proof -
  from assms(1) obtain y where y: "d = DFin y" "approx n x y" "inrange j x"
    by (rule tracks_value)
  from assms(2) obtain y' where y': "d' = DFin y'" "approx m x' y'" "inrange k x'"
    by (rule tracks_value)
  from tracks_round [OF approx_mult [OF y(2) y'(2)] inrange_mult [OF y(3) y'(3)] assms(3,4)]
  show ?thesis by (simp add: y(1) y'(1))
qed

lemma tracks_div:
  assumes "tracks n j x d" "tracks m k x' d'" "n + m \<le> 200" "j + k \<le> 1021"
  shows "tracks (n + m + 1) (j + k) (x / x') (d / d')"
proof -
  from assms(1) obtain y where y: "d = DFin y" "approx n x y" "inrange j x"
    by (rule tracks_value)
  from assms(2) obtain y' where y': "d' = DFin y'" "approx m x' y'" "inrange k x'" "0 < y'"
    by (rule tracks_value)
  from tracks_round [OF approx_div [OF y(2) y'(2)] inrange_div [OF y(3) y'(3)] assms(3,4)]
  show ?thesis using y'(4) by (simp add: y(1) y'(1))
qed

lemma sqrt_between:
  assumes "0 < x"
  shows "min 1 x \<le> sqrt x" "sqrt x \<le> max 1 x"
proof -
  have sq: "sqrt x * sqrt x = x" using assms by simp
  have s0: "0 < sqrt x" using assms by simp
  show "min 1 x \<le> sqrt x"
  proof (cases "1 \<le> x")
    case True
    then have "1 \<le> sqrt x" by simp
    then show ?thesis by simp
  next
    case False
    then have "sqrt x \<le> 1" by simp
    then have "sqrt x * sqrt x \<le> sqrt x * 1" using s0 by (intro mult_left_mono) simp_all
    then show ?thesis using sq by simp
  qed
  show "sqrt x \<le> max 1 x"
  proof (cases "1 \<le> x")
    case True
    then have "1 \<le> sqrt x" by simp
    then have "sqrt x * 1 \<le> sqrt x * sqrt x" using s0 by (intro mult_left_mono) simp_all
    then show ?thesis using sq by simp
  next
    case False
    then have "sqrt x \<le> 1" by simp
    then show ?thesis by simp
  qed
qed

lemma root3_between:
  assumes "0 < x"
  shows "min 1 x \<le> root 3 x" "root 3 x \<le> max 1 x"
proof -
  define r where "r = root 3 x"
  have r0: "0 < r" using assms by (simp add: r_def real_root_gt_zero)
  have r3: "r * r * r = x"
    using real_root_pow_pos [of 3 x] assms by (simp add: r_def power3_eq_cube)
  show "min 1 x \<le> root 3 x"
  proof (cases "1 \<le> r")
    case True
    then show ?thesis by (simp add: r_def)
  next
    case False
    then have "r * r \<le> 1 * 1" using r0 by (intro mult_mono) simp_all
    then have "r * r * r \<le> 1 * r" using r0 by (intro mult_right_mono) simp_all
    then show ?thesis using r3 by (simp add: r_def)
  qed
  show "root 3 x \<le> max 1 x"
  proof (cases "1 \<le> r")
    case True
    then have "1 * 1 \<le> r * r" by (intro mult_mono) simp_all
    then have "1 * r \<le> r * r * r" using r0 by (intro mult_right_mono) simp_all
    then show ?thesis using r3 by (simp add: r_def)
  next
    case False
    then show ?thesis by (simp add: r_def)
  qed
qed

lemma inrange_between:
  assumes "inrange k x" "min 1 x \<le> y" "y \<le> max 1 x"
  shows "inrange k y"
proof -
  have lo1: "pow2 (- int k) \<le> 1" by (rule pow2_le_one) simp
  have hi1: "1 \<le> pow2 (int k)" by (rule pow2_ge_one) simp
  from assms lo1 hi1 show ?thesis unfolding inrange_def by linarith
qed

lemma inrange_sqrt: "inrange k x \<Longrightarrow> inrange k (sqrt x)"
  using inrange_between sqrt_between inrange_pos by blast

lemma inrange_root3: "inrange k x \<Longrightarrow> inrange k (root 3 x)"
  using inrange_between root3_between inrange_pos by blast

lemma tracks_sqrt:
  assumes "tracks n k x d" "n \<le> 200" "k \<le> 1021"
  shows "tracks (n + 1) k (sqrt x) (Math_sqrt_double d)"
proof -
  from assms(1) obtain y where y: "d = DFin y" "approx n x y" "0 < y" "inrange k x"
    by (rule tracks_value)
  from tracks_round [OF approx_sqrt [OF y(2)] inrange_sqrt [OF y(4)] assms(2,3)]
  show ?thesis using y(3) by (simp add: y(1))
qed

lemma approx_of_ulp:
  assumes r: "0 < r" and e: "\<bar>z - r\<bar> \<le> r / 2 ^ 52"
  shows "approx 3 r z"
proof -
  have w3: "unit_w ^ 3 \<le> 1 - 1 / 2 ^ 52" "(1 + 1 / 2 ^ 52) * unit_w ^ 3 \<le> 1"
    by (simp_all add: unit_w_def power3_eq_cube)
  have "r * unit_w ^ 3 \<le> r * (1 - 1 / 2 ^ 52)" using w3(1) r by (intro mult_left_mono) simp_all
  also have "\<dots> = r - r / 2 ^ 52" by (simp add: algebra_simps)
  also have "\<dots> \<le> z" using e by linarith
  finally have 1: "r * unit_w ^ 3 \<le> z" .
  have z0: "0 \<le> unit_w ^ 3" using unit_w_pow_bounds(1) [of 3] by simp
  have "z \<le> r + r / 2 ^ 52" using e by linarith
  then have "z \<le> r * (1 + 1 / 2 ^ 52)" by (simp add: algebra_simps)
  then have "z * unit_w ^ 3 \<le> r * (1 + 1 / 2 ^ 52) * unit_w ^ 3"
    using z0 by (rule mult_right_mono)
  also have "\<dots> = r * ((1 + 1 / 2 ^ 52) * unit_w ^ 3)" by simp
  also have "\<dots> \<le> r * 1" using w3(2) r by (intro mult_left_mono) simp_all
  finally have 2: "z * unit_w ^ 3 \<le> r" by simp
  from 1 2 r show ?thesis by (simp add: approx_def)
qed

lemma tracks_positive: "tracks n k x d \<Longrightarrow> \<not> d \<le> DFin 0"
  by (erule tracks_value) simp

lemma overflow_mult:
  assumes "tracks n j x d" "tracks m k x' d'" "n + m \<le> 200" "pow2 1025 \<le> x * x'"
  shows "d * d' = DInf False"
proof -
  from assms(1) obtain y where y: "d = DFin y" "approx n x y" "0 < y" by (rule tracks_value)
  from assms(2) obtain y' where y': "d' = DFin y'" "approx m x' y'" "0 < y'"
    by (rule tracks_value)
  have a: "approx (n + m) (x * x') (y * y')" using y(2) y'(2) by (rule approx_mult)
  have h: "1 / 2 \<le> unit_w ^ (n + m)" using assms(3) by (rule unit_w_pow_half)
  have "pow2 1024 = pow2 1025 * (1 / 2)" using pow2_double [of 1024] by simp
  also have "\<dots> \<le> (x * x') * unit_w ^ (n + m)"
    using assms(4) h pow2_pos [of 1025] approx_pos [OF a] by (intro mult_mono) simp_all
  also have "\<dots> \<le> y * y'" using a by (simp add: approx_def)
  finally have "round_double (y * y') = DInf False" by (rule round_double_overflow)
  then show ?thesis by (simp add: y(1) y'(1))
qed

lemma approx_relative_error:
  assumes a: "approx n x y" and n: "n \<le> 200"
  shows "\<bar>y - x\<bar> / x < 1 / 10 ^ 6"
proof -
  note p = approx_pos [OF a]
  have "real n / 2 ^ 53 \<le> 200 / 2 ^ 53" using n by (simp add: divide_right_mono)
  then have w: "1 - 200 / 2 ^ 53 \<le> unit_w ^ n" using unit_w_pow_lower [of n] by linarith
  have "x * (1 - 200 / 2 ^ 53) \<le> x * unit_w ^ n" using w p by (intro mult_left_mono) simp_all
  also have "\<dots> \<le> y" using a by (simp add: approx_def)
  finally have lo: "x - y \<le> x * (200 / 2 ^ 53)" by (simp add: algebra_simps)
  have "y * (1 - 200 / 2 ^ 53) \<le> y * unit_w ^ n" using w p by (intro mult_left_mono) simp_all
  also have "\<dots> \<le> x" using a by (simp add: approx_def)
  finally have "y * (1 - 200 / 2 ^ 53) \<le> x" .
  then have "y \<le> x / (1 - 200 / 2 ^ 53)" by (simp add: pos_le_divide_eq)
  also have "\<dots> \<le> x * (1 + 400 / 2 ^ 53)" using p by (simp add: field_simps)
  finally have hi: "y - x \<le> x * (400 / 2 ^ 53)" by (simp add: algebra_simps)
  define c where "c = x * (400 / 2 ^ 53)"
  have "x * (200 / 2 ^ 53) \<le> c" unfolding c_def using p by (intro mult_left_mono) simp_all
  then have "x - y \<le> c" "y - x \<le> c" using lo hi by (simp_all add: c_def)
  then have "\<bar>y - x\<bar> \<le> c" by linarith
  then have "\<bar>y - x\<bar> \<le> x * (400 / 2 ^ 53)" by (simp add: c_def)
  then have "\<bar>y - x\<bar> / x \<le> 400 / 2 ^ 53" using p by (simp add: pos_divide_le_eq mult.commute)
  also have "\<dots> < (1 :: real) / 10 ^ 6" by simp
  finally show ?thesis .
qed

lemma pow2_nat: "pow2 (int k) = 2 ^ k"
  by (simp add: pow2_def powr_realpow)

lemma pow2_neg_nat: "pow2 (- int k) = 1 / 2 ^ k"
  by (simp add: pow2_def powr_minus powr_realpow inverse_eq_divide)

lemma inrangeI: "1 / 2 ^ k \<le> x \<Longrightarrow> x \<le> 2 ^ k \<Longrightarrow> inrange k x"
  by (simp add: inrange_def pow2_nat pow2_neg_nat)

lemma inrange_root3_third:
  assumes "inrange (3 * k) x"
  shows "inrange k (root 3 x)"
proof -
  have "(2 :: real) ^ (3 * k) = (2 ^ k) ^ 3" by (simp add: power_mult mult.commute)
  then have lo: "pow2 (- int (3 * k)) = (pow2 (- int k)) ^ 3"
    and hi: "pow2 (int (3 * k)) = (pow2 (int k)) ^ 3"
    unfolding pow2_neg_nat pow2_nat by (simp_all add: power_divide)
  have "root 3 ((pow2 (- int k)) ^ 3) \<le> root 3 x"
    using assms by (simp add: lo [symmetric] inrange_def)
  then have 1: "pow2 (- int k) \<le> root 3 x" by (simp add: real_root_power_cancel less_imp_le)
  have "root 3 x \<le> root 3 ((pow2 (int k)) ^ 3)"
    using assms by (simp add: hi [symmetric] inrange_def)
  then have 2: "root 3 x \<le> pow2 (int k)" by (simp add: real_root_power_cancel less_imp_le)
  from 1 2 show ?thesis by (simp add: inrange_def)
qed

lemma tracks_cbrt_third:
  assumes c: "cbrt_ok c" and t: "tracks n (3 * k) x d" and n: "n \<le> 200" and k: "3 * k \<le> 1021"
  shows "tracks (n + 3) k (root 3 x) (Math_cbrt_double c d)"
proof -
  from t obtain y where y: "d = DFin y" "approx n x y" "0 < y" "inrange (3 * k) x"
    by (rule tracks_value)
  from approx_normal [OF y(2) y(4) n k] c have "\<bar>c y - root 3 y\<bar> \<le> root 3 y / 2 ^ 52"
    by (simp add: cbrt_ok_def)
  moreover have "0 < root 3 y" using y(3) by (simp add: real_root_gt_zero)
  ultimately have "approx 3 (root 3 y) (c y)" by (intro approx_of_ulp)
  from approx_trans [OF approx_root3 [OF y(2)] this] inrange_root3_third [OF y(4)]
  show ?thesis by (auto simp: tracks_def y(1))
qed

lemma cbrt_nearest_ok: "cbrt_ok cbrt_nearest"
  unfolding cbrt_ok_def
proof (intro allI impI)
  fix y
  assume y: "pow2 (- 1022) \<le> y \<and> y \<le> pow2 1022"
  then have ypos: "0 < y" using pow2_pos [of "- 1022"] by linarith
  have "inrange 1022 y" using y by (simp add: inrange_def)
  then have "inrange 1022 (root 3 y)" by (rule inrange_root3)
  then have "pow2 (- 1022) \<le> root 3 y" "root 3 y \<le> pow2 1022" by (simp_all add: inrange_def)
  from round_double_normal [OF this]
  obtain z where z: "round_double (root 3 y) = DFin z" "approx 1 (root 3 y) z" by blast
  define r where "r = root 3 y"
  have rpos: "0 < r" using ypos by (simp add: r_def real_root_gt_zero)
  have a: "r * unit_w \<le> z" "z * unit_w \<le> r" using z(2) by (simp_all add: approx_def r_def)
  have lo: "r - z \<le> r / 2 ^ 53" using a(1) by (simp add: unit_w_def algebra_simps)
  have zle: "z \<le> 2 * r"
  proof -
    have "z * (1 / 2) \<le> z * unit_w"
      using a(1) rpos unit_w_bounds(1) by (intro mult_left_mono) (simp_all add: unit_w_def)
    with a(2) show ?thesis by simp
  qed
  have "z - r \<le> z / 2 ^ 53" using a(2) by (simp add: unit_w_def algebra_simps)
  also have "\<dots> \<le> (2 * r) / 2 ^ 53" using zle by (intro divide_right_mono) simp_all
  finally have hi: "z - r \<le> r / 2 ^ 52" by simp
  have "r / 2 ^ 53 \<le> r / 2 ^ 52" using rpos by (simp add: frac_le)
  then have "\<bar>z - r\<bar> \<le> r / 2 ^ 52" using lo hi by linarith
  then show "\<bar>cbrt_nearest y - root 3 y\<bar> \<le> root 3 y / 2 ^ 52"
    by (simp add: cbrt_nearest_def z(1) r_def)
qed

lemma const_ranges:
  "inrange 5 24" "inrange 12 3600" "inrange 101 M_SUN" "inrange 34 G" "inrange 2 4"
  "inrange 2 pi" "inrange 38 AU" "inrange 0 1" "inrange 20 (1 / 10 ^ 6)"
proof -
  show "inrange 5 24" "inrange 12 3600" "inrange 2 4" "inrange 0 1" "inrange 20 (1 / 10 ^ 6)"
    by (rule inrangeI; simp)+
  show "inrange 101 M_SUN" by (rule inrangeI) (simp_all add: M_SUN_def)
  show "inrange 34 G" by (rule inrangeI) (simp_all add: G_def)
  show "inrange 38 AU" by (rule inrangeI) (simp_all add: AU_def)
  have "2 \<le> pi" "pi < 4" by (rule pi_ge_two, rule pi_less_4)
  then show "inrange 2 pi" by (intro inrangeI) simp_all
qed

lemma const_tracks:
  "tracks 1 5 24 (round_double 24)" "tracks 1 12 3600 (round_double 3600)"
  "tracks 1 101 M_SUN (round_double M_SUN)" "tracks 1 34 G (round_double G)"
  "tracks 1 2 4 (round_double 4)" "tracks 1 2 pi (round_double pi)"
  "tracks 1 38 AU (round_double AU)" "tracks 1 0 1 (round_double 1)"
  "tracks 1 20 (1 / 10 ^ 6) (round_double (1 / 10 ^ 6))"
  by (rule tracks_const, rule const_ranges, simp)+

lemma approx_weaken:
  assumes a: "approx n x y" and le: "n \<le> m"
  shows "approx m x y"
proof -
  note p = approx_pos [OF a]
  have w: "unit_w ^ m \<le> unit_w ^ n"
    using le unit_w_bounds by (intro power_decreasing) simp_all
  have "x * unit_w ^ m \<le> x * unit_w ^ n" using w p by (intro mult_left_mono) simp_all
  also have "\<dots> \<le> y" using a by (simp add: approx_def)
  finally have 1: "x * unit_w ^ m \<le> y" .
  have "y * unit_w ^ m \<le> y * unit_w ^ n" using w p by (intro mult_left_mono) simp_all
  also have "\<dots> \<le> x" using a by (simp add: approx_def)
  finally have 2: "y * unit_w ^ m \<le> x" .
  from 1 2 p show ?thesis by (simp add: approx_def)
qed

lemma tracks_weaken:
  assumes "tracks n j x d" "n \<le> N" "j \<le> K"
  shows "tracks N K x d"
proof -
  from assms(1) obtain y where y: "d = DFin y" "approx n x y" "inrange j x"
    by (rule tracks_value)
  from approx_weaken [OF y(2) assms(2)] inrange_weaken [OF y(3) assms(3)] y(1)
  show ?thesis by (simp add: tracks_def)
qed

lemma tracks_multI:
  assumes "tracks n j x d" "tracks m k x' d'"
    and "n + m + 1 \<le> N" "N \<le> 200" "j + k \<le> K" "K \<le> 1021"
  shows "tracks N K (x * x') (d * d')"
  by (rule tracks_weaken [OF tracks_mult [OF assms(1,2)]]) (use assms(3-6) in simp_all)

lemma tracks_divI:
  assumes "tracks n j x d" "tracks m k x' d'"
    and "n + m + 1 \<le> N" "N \<le> 200" "j + k \<le> K" "K \<le> 1021"
  shows "tracks N K (x / x') (d / d')"
  by (rule tracks_weaken [OF tracks_div [OF assms(1,2)]]) (use assms(3-6) in simp_all)

lemma tracks_cbrtI:
  assumes "cbrt_ok c" "tracks n j x d" "n + 3 \<le> N" "N \<le> 200" "j \<le> 3 * K" "3 * K \<le> 1021"
  shows "tracks N K (root 3 x) (Math_cbrt_double c d)"
proof -
  have t: "tracks n (3 * K) x d" by (rule tracks_weaken [OF assms(2)]) (use assms(5) in simp_all)
  show ?thesis
    by (rule tracks_weaken [OF tracks_cbrt_third [OF assms(1) t]]) (use assms(3,4,6) in simp_all)
qed

lemma tracks_sqrtI:
  assumes "tracks n k x d" "n + 1 \<le> N" "N \<le> 200" "k \<le> K" "K \<le> 1021"
  shows "tracks N K (sqrt x) (Math_sqrt_double d)"
  by (rule tracks_weaken [OF tracks_sqrt [OF assms(1)]]) (use assms(2-5) in simp_all)

lemma semi_major_axis_tracks:
  assumes c: "cbrt_ok c" and P: "inrange 100 P" and M: "inrange 30 M"
  shows "tracks 25 173
           (root 3 (G * (M * M_SUN) * (P * 24 * 3600) * (P * 24 * 3600) / (4 * pi * pi)) / AU)
           (calculateSemiMajorAxis_double c (DFin P) (DFin M))"
proof -
  note k = const_tracks
  have t1: "tracks 2 105 (P * 24) (DFin P * round_double 24)"
    by (rule tracks_multI [OF tracks_input [OF P] k(1)]) simp_all
  have tP: "tracks 4 117 (P * 24 * 3600) (DFin P * round_double 24 * round_double 3600)"
    by (rule tracks_multI [OF t1 k(2)]) simp_all
  have tM: "tracks 2 131 (M * M_SUN) (DFin M * round_double M_SUN)"
    by (rule tracks_multI [OF tracks_input [OF M] k(3)]) simp_all
  have tGM: "tracks 4 165 (G * (M * M_SUN)) (round_double G * (DFin M * round_double M_SUN))"
    by (rule tracks_multI [OF k(4) tM]) simp_all
  have t2: "tracks 9 282 (G * (M * M_SUN) * (P * 24 * 3600))
      (round_double G * (DFin M * round_double M_SUN)
        * (DFin P * round_double 24 * round_double 3600))"
    by (rule tracks_multI [OF tGM tP]) simp_all
  have t3: "tracks 14 399 (G * (M * M_SUN) * (P * 24 * 3600) * (P * 24 * 3600))
      (round_double G * (DFin M * round_double M_SUN)
        * (DFin P * round_double 24 * round_double 3600)
        * (DFin P * round_double 24 * round_double 3600))"
    by (rule tracks_multI [OF t2 tP]) simp_all
  have d1: "tracks 3 4 (4 * pi) (round_double 4 * round_double pi)"
    by (rule tracks_multI [OF k(5) k(6)]) simp_all
  have d2: "tracks 5 6 (4 * pi * pi) (round_double 4 * round_double pi * round_double pi)"
    by (rule tracks_multI [OF d1 k(6)]) simp_all
  have ac: "tracks 20 405
      (G * (M * M_SUN) * (P * 24 * 3600) * (P * 24 * 3600) / (4 * pi * pi))
      (round_double G * (DFin M * round_double M_SUN)
        * (DFin P * round_double 24 * round_double 3600)
        * (DFin P * round_double 24 * round_double 3600)
        / (round_double 4 * round_double pi * round_double pi))"
    by (rule tracks_divI [OF t3 d2]) simp_all
  have a: "tracks 23 135
      (root 3 (G * (M * M_SUN) * (P * 24 * 3600) * (P * 24 * 3600) / (4 * pi * pi)))
      (Math_cbrt_double c
        (round_double G * (DFin M * round_double M_SUN)
          * (DFin P * round_double 24 * round_double 3600)
          * (DFin P * round_double 24 * round_double 3600)
          / (round_double 4 * round_double pi * round_double pi)))"
    by (rule tracks_cbrtI [OF c ac]) simp_all
  have r: "tracks 25 173
      (root 3 (G * (M * M_SUN) * (P * 24 * 3600) * (P * 24 * 3600) / (4 * pi * pi)) / AU)
      (Math_cbrt_double c
        (round_double G * (DFin M * round_double M_SUN)
          * (DFin P * round_double 24 * round_double 3600)
          * (DFin P * round_double 24 * round_double 3600)
          / (round_double 4 * round_double pi * round_double pi))
       / round_double AU)"
    by (rule tracks_divI [OF a k(7)]) simp_all
  have g: "\<not> DFin P \<le> DFin 0" "\<not> DFin M \<le> DFin 0"
    using inrange_pos [OF P] inrange_pos [OF M] by simp_all
  have "calculateSemiMajorAxis_double c (DFin P) (DFin M)
      = Math_cbrt_double c
        (round_double G * (DFin M * round_double M_SUN)
          * (DFin P * round_double 24 * round_double 3600)
          * (DFin P * round_double 24 * round_double 3600)
          / (round_double 4 * round_double pi * round_double pi))
       / round_double AU"
    unfolding calculateSemiMajorAxis_double_def Let_def using g by (simp only: if_False simp_thms)
  with r show ?thesis by simp
qed

lemma orbital_period_tracks:
  assumes a: "tracks 25 173 x d" and M: "inrange 30 M"
  shows "tracks 99 821
           (sqrt (4 * pi * pi * (x * AU) * (x * AU) * (x * AU) / (G * (M * M_SUN))) / (24 * 3600))
           (calculateOrbitalPeriod_double d (DFin M))"
proof -
  note k = const_tracks
  have a': "tracks 27 211 (x * AU) (d * round_double AU)"
    by (rule tracks_multI [OF a k(7)]) simp_all
  have tM: "tracks 2 131 (M * M_SUN) (DFin M * round_double M_SUN)"
    by (rule tracks_multI [OF tracks_input [OF M] k(3)]) simp_all
  have tGM: "tracks 4 165 (G * (M * M_SUN)) (round_double G * (DFin M * round_double M_SUN))"
    by (rule tracks_multI [OF k(4) tM]) simp_all
  have d1: "tracks 3 4 (4 * pi) (round_double 4 * round_double pi)"
    by (rule tracks_multI [OF k(5) k(6)]) simp_all
  have d2: "tracks 5 6 (4 * pi * pi) (round_double 4 * round_double pi * round_double pi)"
    by (rule tracks_multI [OF d1 k(6)]) simp_all
  have n3: "tracks 33 217 (4 * pi * pi * (x * AU))
      (round_double 4 * round_double pi * round_double pi * (d * round_double AU))"
    by (rule tracks_multI [OF d2 a']) simp_all
  have n4: "tracks 61 428 (4 * pi * pi * (x * AU) * (x * AU))
      (round_double 4 * round_double pi * round_double pi * (d * round_double AU)
        * (d * round_double AU))"
    by (rule tracks_multI [OF n3 a']) simp_all
  have n5: "tracks 89 639 (4 * pi * pi * (x * AU) * (x * AU) * (x * AU))
      (round_double 4 * round_double pi * round_double pi * (d * round_double AU)
        * (d * round_double AU) * (d * round_double AU))"
    by (rule tracks_multI [OF n4 a']) simp_all
  have tsq: "tracks 94 804 (4 * pi * pi * (x * AU) * (x * AU) * (x * AU) / (G * (M * M_SUN)))
      (round_double 4 * round_double pi * round_double pi * (d * round_double AU)
        * (d * round_double AU) * (d * round_double AU)
        / (round_double G * (DFin M * round_double M_SUN)))"
    by (rule tracks_divI [OF n5 tGM]) simp_all
  have t: "tracks 95 804
      (sqrt (4 * pi * pi * (x * AU) * (x * AU) * (x * AU) / (G * (M * M_SUN))))
      (Math_sqrt_double
        (round_double 4 * round_double pi * round_double pi * (d * round_double AU)
          * (d * round_double AU) * (d * round_double AU)
          / (round_double G * (DFin M * round_double M_SUN))))"
    by (rule tracks_sqrtI [OF tsq]) simp_all
  have day: "tracks 3 17 (24 * 3600) (round_double 24 * round_double 3600)"
    by (rule tracks_multI [OF k(1) k(2)]) simp_all
  have out: "tracks 99 821
      (sqrt (4 * pi * pi * (x * AU) * (x * AU) * (x * AU) / (G * (M * M_SUN))) / (24 * 3600))
      (Math_sqrt_double
        (round_double 4 * round_double pi * round_double pi * (d * round_double AU)
          * (d * round_double AU) * (d * round_double AU)
          / (round_double G * (DFin M * round_double M_SUN)))
       / (round_double 24 * round_double 3600))"
    by (rule tracks_divI [OF t day]) simp_all
  have g: "\<not> d \<le> DFin 0" "\<not> DFin M \<le> DFin 0"
    using tracks_positive [OF a] inrange_pos [OF M] by simp_all
  have "calculateOrbitalPeriod_double d (DFin M)
      = Math_sqrt_double
        (round_double 4 * round_double pi * round_double pi * (d * round_double AU)
          * (d * round_double AU) * (d * round_double AU)
          / (round_double G * (DFin M * round_double M_SUN)))
       / (round_double 24 * round_double 3600)"
    unfolding calculateOrbitalPeriod_double_def Let_def using g by (simp only: if_False simp_thms)
  with out show ?thesis by simp
qed

lemma kepler_exact_roundtrip:
  assumes "0 < P" "0 < M"
  shows "sqrt (4 * pi * pi
               * (root 3 (G * (M * M_SUN) * (P * 24 * 3600) * (P * 24 * 3600) / (4 * pi * pi))
                  / AU * AU)
               * (root 3 (G * (M * M_SUN) * (P * 24 * 3600) * (P * 24 * 3600) / (4 * pi * pi))
                  / AU * AU)
               * (root 3 (G * (M * M_SUN) * (P * 24 * 3600) * (P * 24 * 3600) / (4 * pi * pi))
                  / AU * AU)
               / (G * (M * M_SUN)))
         / (24 * 3600) = P"
proof -
  have cp: "0 < G" "0 < M_SUN" "0 < AU" by (simp_all add: G_def M_SUN_def AU_def)
  define s where "s = P * 24 * 3600"
  define k where "k = G * (M * M_SUN)"
  define x where "x = k * s * s / (4 * pi * pi)"
  define r where "r = root 3 x"
  have spos: "0 < s" unfolding s_def using assms by simp
  have kpos: "0 < k" unfolding k_def using assms cp by simp
  have xpos: "0 < x" unfolding x_def using spos kpos by simp
  have r3: "r * r * r = x"
    using real_root_pow_pos [of 3 x] xpos by (simp add: r_def power3_eq_cube)
  have rAU: "r / AU * AU = r" using cp by simp
  have "4 * pi * pi * r * r * r / k = 4 * pi * pi * (r * r * r) / k"
    by (simp add: mult.assoc)
  also have "\<dots> = s * s" unfolding r3 x_def using kpos by (simp add: field_simps)
  finally have tsq: "4 * pi * pi * r * r * r / k = s * s" .
  have "sqrt (4 * pi * pi * (r / AU * AU) * (r / AU * AU) * (r / AU * AU) / k) / (24 * 3600)
        = sqrt (s * s) / (24 * 3600)"
    unfolding rAU tsq ..
  also have "sqrt (s * s) = s" using spos by simp
  also have "s / (24 * 3600) = P" by (simp add: s_def)
  finally show ?thesis unfolding r_def x_def k_def s_def .
qed

text \<open>
  C1, amended: in double arithmetic, for every period \<open>P\<close> between \<open>2^-100\<close> and \<open>2^100\<close>
  days and every star mass \<open>M\<close> between \<open>2^-30\<close> and \<open>2^30\<close> solar masses,
  \<open>calculateOrbitalPeriod(calculateSemiMajorAxis(P, M), M)\<close> is a finite number whose
  relative error against \<open>P\<close> is below \<open>1e-6\<close>, for every implementation of \<open>Math.cbrt\<close>
  that is accurate to a relative error of \<open>2^-52\<close>: no intermediate result leaves the
  normal range, and fewer than a hundred roundings accumulate.
\<close>

theorem C1_kepler_double_range:
  assumes "cbrt_ok c"
    and "1 / 2 ^ 100 \<le> P" and "P \<le> 2 ^ 100"
    and "1 / 2 ^ 30 \<le> M" and "M \<le> 2 ^ 30"
  shows "\<exists>T. calculateOrbitalPeriod_double
               (calculateSemiMajorAxis_double c (DFin P) (DFin M)) (DFin M) = DFin T
             \<and> \<bar>T - P\<bar> / P < 1 / 10 ^ 6"
proof -
  have P: "inrange 100 P" using assms(2,3) by (rule inrangeI)
  have M: "inrange 30 M" using assms(4,5) by (rule inrangeI)
  note pos = inrange_pos [OF P] inrange_pos [OF M]
  from orbital_period_tracks [OF semi_major_axis_tracks [OF assms(1) P M] M]
  have "tracks 99 821 P
          (calculateOrbitalPeriod_double
             (calculateSemiMajorAxis_double c (DFin P) (DFin M)) (DFin M))"
    unfolding kepler_exact_roundtrip [OF pos] .
  then obtain T where T: "calculateOrbitalPeriod_double
             (calculateSemiMajorAxis_double c (DFin P) (DFin M)) (DFin M) = DFin T"
    "approx 99 P T"
    by (rule tracks_value)
  from approx_relative_error [OF T(2)] T(1) show ?thesis by simp
qed

theorem C1_kepler_double_range_witness:
  "cbrt_ok cbrt_nearest
   \<and> (1 :: real) / 2 ^ 100 \<le> 365 \<and> (365 :: real) \<le> 2 ^ 100
   \<and> (1 :: real) / 2 ^ 30 \<le> 1 \<and> (1 :: real) \<le> 2 ^ 30
   \<and> (\<exists>T. calculateOrbitalPeriod_double
               (calculateSemiMajorAxis_double cbrt_nearest (DFin 365) (DFin 1)) (DFin 1) = DFin T
             \<and> \<bar>T - 365\<bar> / 365 < 1 / 10 ^ 6)"
proof -
  have h: "(1 :: real) / 2 ^ 100 \<le> 365" "(365 :: real) \<le> 2 ^ 100"
    "(1 :: real) / 2 ^ 30 \<le> 1" "(1 :: real) \<le> 2 ^ 30"
    by simp_all
  from C1_kepler_double_range [OF cbrt_nearest_ok h] cbrt_nearest_ok h show ?thesis by blast
qed

lemma kepler_overflow:
  "calculateSemiMajorAxis_double c (round_double (10 ^ 200)) (round_double 1) = DInf False"
  "calculateOrbitalPeriod_double (DInf False) (round_double 1) = DInf False"
proof -
  note k = const_tracks
  have p0: "inrange 665 (10 ^ 200)" by (rule inrangeI) simp_all
  have tP0: "tracks 1 665 (10 ^ 200) (round_double (10 ^ 200))"
    by (rule tracks_const [OF p0]) simp
  have t1: "tracks 3 670 (10 ^ 200 * 24) (round_double (10 ^ 200) * round_double 24)"
    by (rule tracks_multI [OF tP0 k(1)]) simp_all
  have tP: "tracks 5 682 (10 ^ 200 * 24 * 3600)
      (round_double (10 ^ 200) * round_double 24 * round_double 3600)"
    by (rule tracks_multI [OF t1 k(2)]) simp_all
  have tM: "tracks 3 101 (1 * M_SUN) (round_double 1 * round_double M_SUN)"
    by (rule tracks_multI [OF k(8) k(3)]) simp_all
  have tGM: "tracks 5 135 (G * (1 * M_SUN)) (round_double G * (round_double 1 * round_double M_SUN))"
    by (rule tracks_multI [OF k(4) tM]) simp_all
  have t2: "tracks 11 817 (G * (1 * M_SUN) * (10 ^ 200 * 24 * 3600))
      (round_double G * (round_double 1 * round_double M_SUN)
        * (round_double (10 ^ 200) * round_double 24 * round_double 3600))"
    by (rule tracks_multI [OF tGM tP]) simp_all
  have d1: "tracks 3 4 (4 * pi) (round_double 4 * round_double pi)"
    by (rule tracks_multI [OF k(5) k(6)]) simp_all
  have d2: "tracks 5 6 (4 * pi * pi) (round_double 4 * round_double pi * round_double pi)"
    by (rule tracks_multI [OF d1 k(6)]) simp_all
  have day: "tracks 3 17 (24 * 3600) (round_double 24 * round_double 3600)"
    by (rule tracks_multI [OF k(1) k(2)]) simp_all
  have big: "pow2 1025 \<le> G * (1 * M_SUN) * (10 ^ 200 * 24 * 3600) * (10 ^ 200 * 24 * 3600)"
    unfolding pow2_nat [of 1025, simplified] by (simp add: G_def M_SUN_def)
  have t3: "round_double G * (round_double 1 * round_double M_SUN)
        * (round_double (10 ^ 200) * round_double 24 * round_double 3600)
        * (round_double (10 ^ 200) * round_double 24 * round_double 3600) = DInf False"
    by (rule overflow_mult [OF t2 tP _ big]) simp
  from d2 obtain dv where dv: "round_double 4 * round_double pi * round_double pi = DFin dv"
    "0 < dv" by (rule tracks_value)
  from k(7) obtain au where au: "round_double AU = DFin au" "0 < au" by (rule tracks_value)
  from tP0 obtain p where p: "round_double (10 ^ 200) = DFin p" "0 < p" by (rule tracks_value)
  from k(8) obtain one where one: "round_double 1 = DFin one" "0 < one" by (rule tracks_value)
  from tGM obtain gm where gm: "round_double G * (round_double 1 * round_double M_SUN) = DFin gm"
    "0 < gm" by (rule tracks_value)
  from day obtain dd where dd: "round_double 24 * round_double 3600 = DFin dd" "0 < dd"
    by (rule tracks_value)
  have g1: "\<not> round_double (10 ^ 200) \<le> DFin 0" "\<not> round_double 1 \<le> DFin 0"
    using p one by simp_all
  show "calculateSemiMajorAxis_double c (round_double (10 ^ 200)) (round_double 1) = DInf False"
    unfolding calculateSemiMajorAxis_double_def Let_def
    using g1 by (simp only: if_False simp_thms t3 dv(1) au(1)) (use dv(2) au(2) in simp)
  have "round_double 4 * round_double pi * round_double pi * (DInf False * round_double AU)
          * (DInf False * round_double AU) * (DInf False * round_double AU)
          / (round_double G * (round_double 1 * round_double M_SUN)) = DInf False"
    unfolding dv(1) au(1) gm(1) using dv(2) au(2) gm(2) by simp
  then show "calculateOrbitalPeriod_double (DInf False) (round_double 1) = DInf False"
    unfolding calculateOrbitalPeriod_double_def Let_def
    using g1(2) dd by (simp only: if_False simp_thms less_eq_double.simps) simp
qed

text \<open>
  C1, as stated: for every positive period and star mass the round trip returns the period
  with a relative error below \<open>1e-6\<close>. It does not for the period \<open>1e200\<close> days and the
  star mass 1: \<open>G * M * P * P\<close> overflows, the semi-major axis is \<open>Infinity\<close>, and so is
  the period computed back from it; the relative error is \<open>Infinity\<close>, not below \<open>1e-6\<close>.
\<close>

theorem C1_kepler_overflow_counterexample:
  "DFin 0 < round_double (10 ^ 200) \<and> DFin 0 < round_double 1
   \<and> calculateOrbitalPeriod_double
       (calculateSemiMajorAxis_double cbrt_nearest (round_double (10 ^ 200)) (round_double 1))
       (round_double 1) = DInf False
   \<and> \<not> \<bar>calculateOrbitalPeriod_double
           (calculateSemiMajorAxis_double cbrt_nearest (round_double (10 ^ 200)) (round_double 1))
           (round_double 1) - round_double (10 ^ 200)\<bar>
         / round_double (10 ^ 200) < round_double (1 / 10 ^ 6)"
proof -
  have p0: "inrange 665 (10 ^ 200)" by (rule inrangeI) simp_all
  have "tracks 1 665 (10 ^ 200) (round_double (10 ^ 200))" by (rule tracks_const [OF p0]) simp
  then obtain p where p: "round_double (10 ^ 200) = DFin p" "0 < p" by (rule tracks_value)
  from const_tracks(8) obtain one where one: "round_double 1 = DFin one" "0 < one" by (rule tracks_value)
  from const_tracks(9) obtain tol where tol: "round_double (1 / 10 ^ 6) = DFin tol" by (rule tracks_value)
  have out: "calculateOrbitalPeriod_double
       (calculateSemiMajorAxis_double cbrt_nearest (round_double (10 ^ 200)) (round_double 1))
       (round_double 1) = DInf False"
    by (simp only: kepler_overflow)
  show ?thesis
    unfolding out unfolding p(1) one(1) tol using p(2) one(2) by simp
qed

text \<open>
  C6, as stated: \<open>calculateSemiMajorAxis\<close> returns \<open>NaN\<close> for a period or star mass
  \<open>\<le> 0\<close> and a finite positive value otherwise. It does not: a \<open>NaN\<close> period is not
  \<open>\<le> 0\<close> and the result is \<open>NaN\<close>; and for the positive period \<open>1e200\<close> with star mass
  1 the result, in double arithmetic, is \<open>Infinity\<close>.
\<close>

theorem C6_not_finite_positive_counterexample:
  "\<not> (NaN \<le> Num 0 \<or> Num 1 \<le> Num 0)
   \<and> calculateSemiMajorAxis NaN (Num 1) = NaN
   \<and> \<not> (round_double (10 ^ 200) \<le> DFin 0 \<or> round_double 1 \<le> DFin 0)
   \<and> calculateSemiMajorAxis_double cbrt_nearest (round_double (10 ^ 200)) (round_double 1)
       = DInf False"
proof -
  have p0: "inrange 665 (10 ^ 200)" by (rule inrangeI) simp_all
  have "tracks 1 665 (10 ^ 200) (round_double (10 ^ 200))" by (rule tracks_const [OF p0]) simp
  then have a: "\<not> round_double (10 ^ 200) \<le> DFin 0" by (rule tracks_positive)
  have b: "\<not> round_double 1 \<le> DFin 0" by (rule tracks_positive [OF const_tracks(8)])
  have c: "calculateSemiMajorAxis NaN (Num 1) = NaN"
    by (simp add: calculateSemiMajorAxis_def Math_PI_def)
  have d: "\<not> (NaN \<le> Num 0 \<or> Num 1 \<le> Num 0)" by simp
  from a b c d kepler_overflow(1) [of cbrt_nearest] show ?thesis by blast
qed

text \<open>
  C6, amended: each of the seven scalar formulas returns \<open>NaN\<close>, and throws nothing, when one
  of its guarded arguments is \<open>\<le> 0\<close>. \<open>calculateSemiMajorAxis\<close> returns \<open>NaN\<close> for every
  period \<open>\<le> 0\<close> or star mass \<open>\<le> 0\<close>, also in double arithmetic, and for a \<open>NaN\<close>
  argument. In double arithmetic it returns a finite positive number for every period between
  \<open>2^-100\<close> and \<open>2^100\<close> days and star mass between \<open>2^-30\<close> and \<open>2^30\<close> solar masses
  (with \<open>Math.cbrt\<close> accurate to a relative error of \<open>2^-52\<close>).
\<close>

theorem C6_guards_and_range:
  "(x \<le> Num 0 \<or> y \<le> Num 0 \<longrightarrow>
      calculateSemiMajorAxis x y = NaN \<and> calculateOrbitalPeriod x y = NaN
      \<and> calculateStellarLuminosity x y = NaN \<and> calculateSurfaceGravity x y = NaN
      \<and> calculateEscapeVelocity x y = NaN \<and> calculateDensity x y = NaN)
   \<and> (x \<le> Num 0 \<or> y \<le> Num 0 \<or> z \<le> Num 0 \<longrightarrow>
        calculateEquilibriumTemperature x y z albedo = NaN)
   \<and> (p \<le> 0 \<or> m \<le> 0 \<longrightarrow> calculateSemiMajorAxis (Num p) (Num m) = NaN)
   \<and> calculateSemiMajorAxis NaN y = NaN \<and> calculateSemiMajorAxis x NaN = NaN
   \<and> (dp \<le> DFin 0 \<or> dm \<le> DFin 0 \<longrightarrow> calculateSemiMajorAxis_double c dp dm = DNaN)
   \<and> (cbrt_ok c \<and> 1 / 2 ^ 100 \<le> q \<and> q \<le> 2 ^ 100 \<and> 1 / 2 ^ 30 \<le> n \<and> n \<le> 2 ^ 30 \<longrightarrow>
        (\<exists>a. calculateSemiMajorAxis_double c (DFin q) (DFin n) = DFin a \<and> 0 < a))"
proof -
  have g2: "x \<le> Num 0 \<or> y \<le> Num 0 \<longrightarrow>
      calculateSemiMajorAxis x y = NaN \<and> calculateOrbitalPeriod x y = NaN
      \<and> calculateStellarLuminosity x y = NaN \<and> calculateSurfaceGravity x y = NaN
      \<and> calculateEscapeVelocity x y = NaN \<and> calculateDensity x y = NaN"
    by (simp add: guard_lemmas)
  have g3: "x \<le> Num 0 \<or> y \<le> Num 0 \<or> z \<le> Num 0 \<longrightarrow>
        calculateEquilibriumTemperature x y z albedo = NaN"
    by (simp add: guard_lemmas)
  have und: "p \<le> 0 \<or> m \<le> 0 \<longrightarrow> calculateSemiMajorAxis (Num p) (Num m) = NaN"
    by (simp add: guard_lemmas(1))
  have nan1: "calculateSemiMajorAxis NaN y = NaN"
    by (cases y) (simp_all add: calculateSemiMajorAxis_def Math_PI_def Let_def)
  have nan2: "calculateSemiMajorAxis x NaN = NaN"
    by (cases x) (simp_all add: calculateSemiMajorAxis_def Math_PI_def Let_def)
  have dbl: "dp \<le> DFin 0 \<or> dm \<le> DFin 0 \<longrightarrow> calculateSemiMajorAxis_double c dp dm = DNaN"
    by (simp add: calculateSemiMajorAxis_double_def)
  have pos: "\<exists>a. calculateSemiMajorAxis_double c (DFin q) (DFin n) = DFin a \<and> 0 < a"
    if h: "cbrt_ok c" "1 / 2 ^ 100 \<le> q" "q \<le> 2 ^ 100" "1 / 2 ^ 30 \<le> n" "n \<le> 2 ^ 30"
  proof -
    from semi_major_axis_tracks [OF h(1) inrangeI [OF h(2,3)] inrangeI [OF h(4,5)]]
    show ?thesis by (rule tracks_value) blast
  qed
  from g2 g3 und nan1 nan2 dbl pos show ?thesis by blast
qed

theorem C6_guards_and_range_witness:
  "Num (- 1) \<le> Num 0
   \<and> calculateSemiMajorAxis (Num (- 1)) (Num 1) = NaN
   \<and> calculateDensity (Num (- 1)) (Num 1) = NaN
   \<and> calculateEquilibriumTemperature (Num (- 1)) (Num 1) (Num 1) (Num (3 / 10)) = NaN
   \<and> calculateSemiMajorAxis (Num 0) (Num 1) = NaN
   \<and> DFin (- 1) \<le> DFin 0
   \<and> calculateSemiMajorAxis_double cbrt_nearest (DFin (- 1)) (DFin 1) = DNaN
   \<and> cbrt_ok cbrt_nearest
   \<and> (1 :: real) / 2 ^ 100 \<le> 365 \<and> (365 :: real) \<le> 2 ^ 100
   \<and> (1 :: real) / 2 ^ 30 \<le> 1 \<and> (1 :: real) \<le> 2 ^ 30
   \<and> (\<exists>a. calculateSemiMajorAxis_double cbrt_nearest (DFin 365) (DFin 1) = DFin a \<and> 0 < a)"
proof -
  have h: "(1 :: real) / 2 ^ 100 \<le> 365" "(365 :: real) \<le> 2 ^ 100"
    "(1 :: real) / 2 ^ 30 \<le> 1" "(1 :: real) \<le> 2 ^ 30" "(0 :: real) \<le> 0 \<or> (1 :: real) \<le> 0"
    "Num (- 1) \<le> Num 0" "DFin (- 1) \<le> DFin 0"
    by simp_all
  from C6_guards_and_range
    [where x = "Num (- 1)" and y = "Num 1" and z = "Num 1" and albedo = "Num (3 / 10)"
       and p = 0 and m = 1 and dp = "DFin (- 1)" and dm = "DFin 1" and c = cbrt_nearest
       and q = 365 and n = 1]
    cbrt_nearest_ok h
  show ?thesis by blast
qed

section \<open>Properties of the parser\<close>

lemma str_split_no_sep: "sep \<notin> set x \<Longrightarrow> str_split sep x = [x]"
  by (induction x) auto

lemma str_split_append_sep:
  "sep \<notin> set x \<Longrightarrow> str_split sep (x @ sep # rest) = x # str_split sep rest"
  by (induction x) auto

lemma str_split_join:
  "ls \<noteq> [] \<Longrightarrow> \<forall>l \<in> set ls. sep \<notin> set l \<Longrightarrow> str_split sep (str_join [sep] ls) = ls"
proof (induction "[sep]" ls rule: str_join.induct)
  case 1
  then show ?case by simp
next
  case (2 x)
  then show ?case by (simp add: str_split_no_sep)
next
  case (3 x y ys)
  then show ?case by (simp add: str_split_append_sep)
qed

lemma dropWhile_hd_id: "s \<noteq> [] \<Longrightarrow> \<not> P (hd s) \<Longrightarrow> dropWhile P s = s"
  by (cases s) auto

lemma str_trim_id:
  assumes "s \<noteq> []" "\<not> is_ws (hd s)" "\<not> is_ws (last s)"
  shows "str_trim s = s"
proof -
  have "dropWhile is_ws s = s" using assms by (simp add: dropWhile_hd_id)
  moreover have "dropWhile is_ws (rev s) = rev s"
    using assms by (simp add: dropWhile_hd_id hd_rev)
  ultimately show ?thesis by (simp add: str_trim_def)
qed

lemma str_trim_trailing:
  assumes "s \<noteq> []" "\<not> is_ws (hd s)" "\<not> is_ws (last s)" "list_all is_ws w"
  shows "str_trim (s @ w) = s"
proof -
  have front: "dropWhile is_ws (s @ w) = s @ w"
    using assms by (simp add: dropWhile_hd_id)
  have "dropWhile is_ws (rev w @ rev s) = dropWhile is_ws (rev s)"
    using assms(4) by (intro dropWhile_append2) (simp add: list_all_iff)
  also have "\<dots> = rev s"
    using assms by (simp add: dropWhile_hd_id hd_rev)
  finally show ?thesis by (simp add: str_trim_def front)
qed

lemma str_join_Cons:
  "str_join sep (x # xs) = (if xs = [] then x else x @ sep @ str_join sep xs)"
  by (cases xs) auto

lemma set_str_join: "set (str_join sep ls) \<subseteq> set sep \<union> \<Union> (set ` set ls)"
  by (induction sep ls rule: str_join.induct) auto

lemma hd_str_join: "ls \<noteq> [] \<Longrightarrow> hd ls \<noteq> [] \<Longrightarrow> hd (str_join sep ls) = hd (hd ls)"
  by (cases ls) (auto simp: str_join_Cons)

lemma str_join_nonempty_last: "ls \<noteq> [] \<Longrightarrow> last ls \<noteq> [] \<Longrightarrow> str_join sep ls \<noteq> []"
  by (induction ls) (auto simp: str_join_Cons)

lemma last_str_join:
  "ls \<noteq> [] \<Longrightarrow> last ls \<noteq> [] \<Longrightarrow> last (str_join sep ls) = last (last ls)"
proof (induction ls)
  case Nil
  then show ?case by simp
next
  case (Cons x xs)
  show ?case
  proof (cases "xs = []")
    case True
    then show ?thesis by simp
  next
    case False
    with Cons have "str_join sep xs \<noteq> []" "last (str_join sep xs) = last (last xs)"
      by (simp_all add: str_join_nonempty_last)
    with False show ?thesis by (simp add: str_join_Cons)
  qed
qed

lemma str_join_nonempty: "ls \<noteq> [] \<Longrightarrow> hd ls \<noteq> [] \<Longrightarrow> str_join sep ls \<noteq> []"
  by (cases ls) (auto simp: str_join_Cons)

lemma numeric_char_not_special:
  assumes "numeric_char c"
  shows "\<not> is_ws c" "c \<noteq> CHR '',''" "c \<noteq> CHR ''\<newline>''" "c \<noteq> CHR ''#''" "c \<noteq> CHR ''%''"
  using assms by (auto simp: numeric_char_def is_ws_def)

lemma numeric_cell_chars:
  assumes "numeric_cell c"
  shows "c \<noteq> []" "\<forall>x \<in> set c. numeric_char x" "numeric_char (hd c)" "numeric_char (last c)"
  using assms by (auto simp: numeric_cell_def list_all_iff)

lemma numeric_cell_trim: "numeric_cell c \<Longrightarrow> str_trim c = c"
  by (rule str_trim_id) (auto dest: numeric_cell_chars numeric_char_not_special)

lemma numeric_cell_no_comma: "numeric_cell c \<Longrightarrow> CHR '','' \<notin> set c"
  using numeric_cell_chars(2) numeric_char_not_special(2) by blast

lemma startsWith_single: "str_startsWith s [c] \<longleftrightarrow> s \<noteq> [] \<and> hd s = c"
  by (cases s) auto

lemma row_line_facts:
  assumes len: "length r = 4" and cells: "list_all numeric_cell r"
  shows "str_join '','' r \<noteq> []"
    and "numeric_char (hd (str_join '','' r))"
    and "numeric_char (last (str_join '','' r))"
    and "CHR ''\<newline>'' \<notin> set (str_join '','' r)"
    and "str_split CHR '','' (str_join '','' r) = r"
    and "map str_trim r = r"
proof -
  from len have ne: "r \<noteq> []" by auto
  from cells have all: "\<forall>c \<in> set r. numeric_cell c" by (simp add: list_all_iff)
  from ne all have hd_cell: "numeric_cell (hd r)" and last_cell: "numeric_cell (last r)"
    by simp_all
  show "str_join '','' r \<noteq> []"
    using ne hd_cell by (simp add: str_join_nonempty numeric_cell_chars)
  show "numeric_char (hd (str_join '','' r))"
    using ne hd_cell by (simp add: hd_str_join numeric_cell_chars)
  show "numeric_char (last (str_join '','' r))"
    using ne last_cell by (simp add: last_str_join numeric_cell_chars)
  show "CHR ''\<newline>'' \<notin> set (str_join '','' r)"
  proof
    assume "CHR ''\<newline>'' \<in> set (str_join '','' r)"
    then have "CHR ''\<newline>'' \<in> set '','' \<union> \<Union> (set ` set r)"
      using set_str_join by blast
    then obtain c where "c \<in> set r" "CHR ''\<newline>'' \<in> set c" by auto
    then show False
      using all numeric_cell_chars(2) numeric_char_not_special(3) by blast
  qed
  show "str_split CHR '','' (str_join '','' r) = r"
    using ne all by (intro str_split_join) (auto dest: numeric_cell_no_comma)
  show "map str_trim r = r"
    using all by (simp add: map_idI numeric_cell_trim)
qed

lemma row_line_trim:
  assumes "length r = 4" "list_all numeric_cell r"
  shows "str_trim (str_join '','' r) = str_join '','' r"
  using row_line_facts(1-3) [OF assms]
  by (intro str_trim_id) (auto dest: numeric_char_not_special)

lemma row_line_not_comment:
  assumes "length r = 4" "list_all numeric_cell r"
  shows "\<not> str_startsWith (str_join '','' r) ''#''" "\<not> str_startsWith (str_join '','' r) ''%''"
  using row_line_facts(1,2) [OF assms]
  by (auto simp: startsWith_single dest: numeric_char_not_special)

lemma row_cells:
  assumes "length r = 4" "list_all numeric_cell r"
  shows "\<not> isNaN (parseFloat (r ! 1))" "\<not> isNaN (parseFloat (r ! 2))"
  using assms by (auto simp: list_all_length numeric_cell_def)

lemma parse_rows_numeric:
  assumes "list_all (\<lambda>r. length r = 4 \<and> list_all numeric_cell r) rows"
  shows "parse_rows 1 2 3 (map (str_join '','') rows) (time, flux, error)
         = (time @ map (\<lambda>r. parseFloat (r ! 1)) rows,
            flux @ map (\<lambda>r. parseFloat (r ! 2)) rows,
            error @ map (\<lambda>r. error_value (r ! 3)) rows)"
  using assms
proof (induction rows arbitrary: time flux error)
  case Nil
  then show ?case by simp
next
  case (Cons r rows)
  then have r: "length r = 4" "list_all numeric_cell r"
    and rest: "list_all (\<lambda>r. length r = 4 \<and> list_all numeric_cell r) rows"
    by simp_all
  note facts = row_line_facts [OF r] row_line_trim [OF r] row_line_not_comment [OF r]
    row_cells [OF r]
  have step: "parse_rows 1 2 3 (str_join '','' r # map (str_join '','') rows) (time, flux, error)
      = parse_rows 1 2 3 (map (str_join '','') rows)
          (time @ [parseFloat (r ! 1)], flux @ [parseFloat (r ! 2)],
           error @ [error_value (r ! 3)])"
    using facts r(1) by (simp add: Let_def at_index_def error_value_def)
  show ?case
    unfolding list.map step Cons.IH [OF rest] by simp
qed

lemma kepler_header_eval:
  "csv_headers ''KIC,TIME,PDCSAP_FLUX,FLUX_ERR'' = [''kic'', ''time'', ''pdcsap_flux'', ''flux_err'']"
  by code_simp

lemma kepler_header_indices:
  "findIndex is_time_header [''kic'', ''time'', ''pdcsap_flux'', ''flux_err''] = 1"
  "findIndex is_flux_header [''kic'', ''time'', ''pdcsap_flux'', ''flux_err''] = 2"
  "findIndex is_error_header [''kic'', ''time'', ''pdcsap_flux'', ''flux_err''] = 3"
  by code_simp+

lemma kepler_header_source:
  "detectDataSource [''kic'', ''time'', ''pdcsap_flux'', ''flux_err''] = Kepler"
  by code_simp

lemma kepler_csv_lines:
  assumes ne: "rows \<noteq> []"
    and rows: "list_all (\<lambda>r. length r = 4 \<and> list_all numeric_cell r) rows"
    and trailing: "list_all is_ws trailing"
  shows "str_split CHR ''\<newline>''
           (str_trim (csv_text ''KIC,TIME,PDCSAP_FLUX,FLUX_ERR'' rows @ trailing))
         = ''KIC,TIME,PDCSAP_FLUX,FLUX_ERR'' # map (str_join '','') rows"
proof -
  let ?h = "''KIC,TIME,PDCSAP_FLUX,FLUX_ERR''"
  let ?ls = "?h # map (str_join '','') rows"
  have row: "length r = 4" "list_all numeric_cell r" if "r \<in> set rows" for r
    using rows that by (auto simp: list_all_iff)
  have no_nl: "\<forall>l \<in> set ?ls. CHR ''\<newline>'' \<notin> set l"
    using row_line_facts(4) row by auto
  have "last ?ls = str_join '','' (last rows)" using ne by (simp add: last_map)
  moreover have "last rows \<in> set rows" using ne by simp
  ultimately have last_ne: "last ?ls \<noteq> []" and last_num: "numeric_char (last (last ?ls))"
    using row_line_facts(1,3) row by metis+
  have csv_ne: "str_join ''\<newline>'' ?ls \<noteq> []" by (simp add: str_join_Cons)
  have hd_csv: "hd (str_join ''\<newline>'' ?ls) = CHR ''K''" by (simp add: str_join_Cons)
  have last_csv: "last (str_join ''\<newline>'' ?ls) = last (last ?ls)"
    using last_ne by (intro last_str_join) simp_all
  have "str_trim (str_join ''\<newline>'' ?ls @ trailing) = str_join ''\<newline>'' ?ls"
  proof (rule str_trim_trailing)
    show "str_join ''\<newline>'' ?ls \<noteq> []" by (rule csv_ne)
    show "\<not> is_ws (hd (str_join ''\<newline>'' ?ls))" unfolding hd_csv by (simp add: is_ws_def)
    show "\<not> is_ws (last (str_join ''\<newline>'' ?ls))"
      unfolding last_csv using last_num by (rule numeric_char_not_special(1))
    show "list_all is_ws trailing" by (rule trailing)
  qed
  moreover have "str_split CHR ''\<newline>'' (str_join ''\<newline>'' ?ls) = ?ls"
    using no_nl by (intro str_split_join) simp_all
  ultimately show ?thesis by (simp add: csv_text_def)
qed

lemma kepler_csv_parsed:
  assumes ne: "rows \<noteq> []"
    and rows: "list_all (\<lambda>r. length r = 4 \<and> list_all numeric_cell r) rows"
    and trailing: "list_all is_ws trailing"
  shows "parseCSVData rnd (csv_text ''KIC,TIME,PDCSAP_FLUX,FLUX_ERR'' rows @ trailing)
         = Inr \<lparr> lc_time = map (\<lambda>r. parseFloat (r ! 1)) rows,
                 lc_flux = map (\<lambda>r. parseFloat (r ! 2)) rows,
                 lc_error = Some (map (\<lambda>r. error_value (r ! 3)) rows),
                 lc_metadata =
                   \<lparr> md_source = Kepler,
                     md_targetId =
                       extractTargetId
                         (csv_text ''KIC,TIME,PDCSAP_FLUX,FLUX_ERR'' rows @ trailing),
                     md_campaign = None, md_sector = None \<rparr> \<rparr>"
proof -
  let ?csv = "csv_text ''KIC,TIME,PDCSAP_FLUX,FLUX_ERR'' rows @ trailing"
  note lines = kepler_csv_lines [OF assms]
  have inner: "parseCSVDataWithIndices rnd ?csv 1 2 3
         = Inr \<lparr> lc_time = map (\<lambda>r. parseFloat (r ! 1)) rows,
                 lc_flux = map (\<lambda>r. parseFloat (r ! 2)) rows,
                 lc_error = Some (map (\<lambda>r. error_value (r ! 3)) rows),
                 lc_metadata =
                   \<lparr> md_source = Kepler, md_targetId = extractTargetId ?csv,
                     md_campaign = None, md_sector = None \<rparr> \<rparr>"
    unfolding parseCSVDataWithIndices_def lines
    using ne
    by (simp add: kepler_header_eval kepler_header_source parse_rows_numeric [OF rows])
  show ?thesis
    unfolding parseCSVData_def lines list.case kepler_header_eval Let_def kepler_header_indices
    by (simp add: inner)
qed

text \<open>
  C9: a table with the header \<open>KIC,TIME,PDCSAP_FLUX,FLUX_ERR\<close> and 100 rows of four valid
  numeric values each, followed by any trailing white space (such as a final newline), is
  parsed into a light curve with 100 time and 100 flux values, an error array that is
  present and not empty, and the source \<open>kepler\<close>.
\<close>

theorem C9_kepler_table:
  assumes "length rows = 100"
    and "list_all (\<lambda>r. length r = 4 \<and> list_all numeric_cell r) rows"
    and "list_all is_ws trailing"
  shows "\<exists>lc. parseCSVData rnd (csv_text ''KIC,TIME,PDCSAP_FLUX,FLUX_ERR'' rows @ trailing)
                = Inr lc
           \<and> length (lc_time lc) = 100 \<and> length (lc_flux lc) = 100
           \<and> (\<exists>e. lc_error lc = Some e \<and> e \<noteq> [] \<and> length e = 100)
           \<and> md_source (lc_metadata lc) = Kepler"
proof -
  from assms(1) have "rows \<noteq> []" by auto
  from kepler_csv_parsed [OF this assms(2,3)] assms(1) \<open>rows \<noteq> []\<close>
  show ?thesis by simp
qed

lemma example_cells:
  "numeric_cell ''1''" "numeric_cell ''2.5''" "numeric_cell ''0.99''" "numeric_cell ''0.01''"
  by (simp_all add: numeric_cell_def numeric_char_def parseFloat_def is_ws_def is_digit_def)

theorem C9_kepler_table_witness:
  "length (replicate 100 [''1'', ''2.5'', ''0.99'', ''0.01'']) = 100
   \<and> list_all (\<lambda>r. length r = 4 \<and> list_all numeric_cell r)
        (replicate 100 [''1'', ''2.5'', ''0.99'', ''0.01''])
   \<and> list_all is_ws ''\<newline>''
   \<and> (\<exists>lc. parseCSVData (\<lambda>k. Num (1 / 2))
              (csv_text ''KIC,TIME,PDCSAP_FLUX,FLUX_ERR''
                 (replicate 100 [''1'', ''2.5'', ''0.99'', ''0.01'']) @ ''\<newline>'') = Inr lc
           \<and> length (lc_time lc) = 100 \<and> length (lc_flux lc) = 100
           \<and> (\<exists>e. lc_error lc = Some e \<and> e \<noteq> [] \<and> length e = 100)
           \<and> md_source (lc_metadata lc) = Kepler)"
proof -
  have h1: "length (replicate 100 [''1'', ''2.5'', ''0.99'', ''0.01'']) = 100" by simp
  have h2: "list_all (\<lambda>r. length r = 4 \<and> list_all numeric_cell r)
              (replicate 100 [''1'', ''2.5'', ''0.99'', ''0.01''])"
    by (simp add: list_all_iff example_cells)
  have h3: "list_all is_ws ''\<newline>''" by (simp add: is_ws_def)
  from C9_kepler_table [OF h1 h2 h3, of "\<lambda>k. Num (1 / 2)"] h1 h2 h3 show ?thesis by blast
qed

lemma mock_samples_value: "mock_samples = 50000"
  by (simp add: mock_samples_def)

lemma mock_lengths:
  "length (lc_time (generateMockLightCurve rnd)) = 50000"
  "length (lc_flux (generateMockLightCurve rnd)) = 50000"
  "lc_error (generateMockLightCurve rnd) = Some e \<Longrightarrow> length e = 50000"
  by (auto simp: generateMockLightCurve_def generateMockTimeSeries_def
      generateMockFluxSeries_def generateMockErrorSeries_def mock_samples_value)

lemma parse_rows_lengths:
  "parse_rows ti fi ei ls (time, flux, error) = (time', flux', error')
   \<Longrightarrow> length time = length flux \<Longrightarrow> length time' = length flux'"
proof (induction ls arbitrary: time flux error)
  case Nil
  then show ?case by simp
next
  case (Cons l ls)
  then show ?case
    by (auto simp: Let_def split: if_splits)
qed

text \<open>
  C10: there is a well-formed two-column table for which the header search gives time and
  flux the same column. With the header \<open>brightness,time\<close> the word \<open>brightness\<close> contains
  the letter \<open>t\<close>, so it is the first match of the time search, and it is the first match
  of the flux search: both indices are 0 and the parsed time and flux arrays are equal.
\<close>

theorem C10_same_column:
  "str_includes ''brightness'' ''t''
   \<and> findIndex is_time_header (csv_headers ''brightness,time'') = 0
   \<and> findIndex is_flux_header (csv_headers ''brightness,time'') = 0
   \<and> parseCSVData rnd ''brightness,time\<newline>1.5,2.5\<newline>3.5,4.5''
       = Inr \<lparr> lc_time = [Num (15 / 10), Num (35 / 10)],
               lc_flux = [Num (15 / 10), Num (35 / 10)],
               lc_error = None,
               lc_metadata = \<lparr> md_source = Unknown, md_targetId = None,
                               md_campaign = None, md_sector = None \<rparr> \<rparr>"
  by code_simp

lemma narrow_path_nonempty:
  assumes "parseCSVDataWithIndices rnd csvContent ti fi ei = Inr lc"
  shows "0 < length (lc_time lc) \<and> 0 < length (lc_flux lc)"
proof (cases "str_split CHR ''\<newline>'' (str_trim csvContent)")
  case Nil
  with assms show ?thesis by (simp add: parseCSVDataWithIndices_def)
next
  case (Cons line0 rows)
  obtain time flux error where pr: "parse_rows ti fi ei rows ([], [], []) = (time, flux, error)"
    by (cases "parse_rows ti fi ei rows ([], [], [])") auto
  from parse_rows_lengths [OF pr] have same: "length time = length flux" by simp
  show ?thesis
  proof (cases "time = []")
    case True
    with assms Cons pr have "lc = generateMockLightCurve rnd"
      by (simp add: parseCSVDataWithIndices_def)
    then show ?thesis by (simp add: mock_lengths)
  next
    case False
    with assms Cons pr same show ?thesis
      by (auto simp: parseCSVDataWithIndices_def)
  qed
qed

text \<open>
  C2, at a failing input: a table whose header has six tokens takes the wide-table path;
  its only data row does not parse, and the result is an empty light curve, not a synthetic
  one. (The two-column path does fall back: \<open>narrow_path_nonempty\<close>.)
\<close>

theorem C2_wide_table_empty:
  "parseCSVData rnd ''id,time,flux,flux_err,quality,flag\<newline>7,abc,def,0,0,0''
     = Inr \<lparr> lc_time = [], lc_flux = [], lc_error = None,
             lc_metadata = \<lparr> md_source = Kepler, md_targetId = None,
                             md_campaign = None, md_sector = None \<rparr> \<rparr>"
  by code_simp

text \<open>
  C3, at a failing input: the second row has a time and a flux cell but no error cell, so
  nothing is pushed for it: the error array has one entry, the time array two. (Time and
  flux always have the same length: \<open>parse_rows_lengths\<close>.)
\<close>

theorem C3_error_shorter:
  "parseCSVData rnd ''time,flux,err\<newline>1,2,0.1\<newline>3,4''
     = Inr \<lparr> lc_time = [Num 1, Num 3], lc_flux = [Num 2, Num 4],
             lc_error = Some [Num (1 / 10)],
             lc_metadata = \<lparr> md_source = Unknown, md_targetId = None,
                             md_campaign = None, md_sector = None \<rparr> \<rparr>"
  by code_simp

section \<open>Properties of the model service\<close>

text \<open>
  C7, as stated: when the external scorer fails, the request fails with a typed error. It
  does not: with a scorer that throws, \<open>predict\<close> resolves, with the mock prediction.
\<close>

theorem C7_scorer_failure_counterexample:
  "failing_model (replicate 50 (Num 1)) = Throws \<and>
   predict (Some failing_model) (Returns (replicate 50 (Num 1))) Throws
     (Returns \<lparr> dc_timePoints = Num 2, dc_fluxPoints = Num 2, dc_timeRange = Num 1,
                dc_fluxMean = Num 1, dc_fluxMin = Num 1, dc_fluxMax = Num 1,
                dc_fluxStdDev = Num 0 \<rparr>)
     (Num (1 / 2))
     \<lparr> ld_time = [Num 1, Num 2], ld_flux = [Num 1, Num 1], ld_error = None \<rparr>
   = Resolved
       \<lparr> mp_probability = Num (33 / 40),
         mp_confidence = Num (297 / 400),
         mp_planetType = ''Terrestrial'',
         mp_isHabitable = True, mp_hasAtmosphere = True, mp_hasWater = True,
         mp_temperature = Num 365,
         mp_radius = Num (41 / 16),
         mp_distanceFromStar = Num (173 / 400),
         mp_timePoints = None, mp_fluxPoints = None, mp_timeRange = None,
         mp_fluxMean = None, mp_fluxMin = None, mp_fluxMax = None,
         mp_fluxStdDev = None \<rparr>"
  by (simp add: predict_def predict_try_def failing_model_def getMockPrediction_def
      classifyPlanetType_def estimateTemperature_def estimateRadius_def estimateDistance_def)

text \<open>
  C7, amended: \<open>predict\<close> never rejects, and no typed error reaches the caller. Whenever a
  step of the \<open>try\<close> block throws (the preprocessing, the external scorer, the simulation
  used when no model is loaded, or the block of dataset characteristics), the request
  completes with the mock prediction of \<open>getMockPrediction\<close>. When no step throws, the
  request completes with the probability the scorer (or the simulation) returned, unchecked:
  a \<open>NaN\<close> probability from the scorer is the probability of the result, with a \<open>NaN\<close>
  confidence.
\<close>

theorem C7_predict_never_rejects:
  "predict model features simulated characteristics r data \<noteq> Rejected
   \<and> predict model Throws simulated characteristics r data
       = Resolved (getMockPrediction r data)
   \<and> (m1 fs1 = Throws \<longrightarrow>
        predict (Some m1) (Returns fs1) simulated characteristics r data
          = Resolved (getMockPrediction r data))
   \<and> predict None (Returns fs) Throws characteristics r data
       = Resolved (getMockPrediction r data)
   \<and> predict model (Returns fs) simulated Throws r data
       = Resolved (getMockPrediction r data)
   \<and> (m2 fs2 = Returns pr \<longrightarrow>
        predict (Some m2) (Returns fs2) simulated (Returns c) r data
          = Resolved
            \<lparr> mp_probability = pr,
              mp_confidence = Math_min (pr * Num (12 / 10)) (Num 1),
              mp_planetType = classifyPlanetType pr data,
              mp_isHabitable = (Num (7 / 10) < pr),
              mp_hasAtmosphere = (Num (6 / 10) < pr),
              mp_hasWater = (Num (8 / 10) < pr),
              mp_temperature = estimateTemperature pr data,
              mp_radius = estimateRadius pr data,
              mp_distanceFromStar = estimateDistance pr data,
              mp_timePoints = Some (dc_timePoints c),
              mp_fluxPoints = Some (dc_fluxPoints c),
              mp_timeRange = Some (dc_timeRange c),
              mp_fluxMean = Some (dc_fluxMean c),
              mp_fluxMin = Some (dc_fluxMin c),
              mp_fluxMax = Some (dc_fluxMax c),
              mp_fluxStdDev = Some (dc_fluxStdDev c) \<rparr>)
   \<and> predict None (Returns fs) (Returns pr) (Returns c) r data
       = Resolved
            \<lparr> mp_probability = pr,
              mp_confidence = Math_min (pr * Num (12 / 10)) (Num 1),
              mp_planetType = classifyPlanetType pr data,
              mp_isHabitable = (Num (7 / 10) < pr),
              mp_hasAtmosphere = (Num (6 / 10) < pr),
              mp_hasWater = (Num (8 / 10) < pr),
              mp_temperature = estimateTemperature pr data,
              mp_radius = estimateRadius pr data,
              mp_distanceFromStar = estimateDistance pr data,
              mp_timePoints = Some (dc_timePoints c),
              mp_fluxPoints = Some (dc_fluxPoints c),
              mp_timeRange = Some (dc_timeRange c),
              mp_fluxMean = Some (dc_fluxMean c),
              mp_fluxMin = Some (dc_fluxMin c),
              mp_fluxMax = Some (dc_fluxMax c),
              mp_fluxStdDev = Some (dc_fluxStdDev c) \<rparr>
   \<and> (m3 fs3 = Returns NaN \<longrightarrow>
        (\<exists>p. predict (Some m3) (Returns fs3) simulated (Returns c) r data = Resolved p
             \<and> mp_probability p = NaN \<and> mp_confidence p = NaN))"
  by (auto simp: predict_def predict_try_def split: outcome.splits option.splits)

theorem C7_predict_never_rejects_witness:
  "failing_model (replicate 50 (Num 1)) = Throws
   \<and> corrupt_model (replicate 50 (Num 1)) = Returns NaN
   \<and> predict (Some failing_model) (Returns (replicate 50 (Num 1))) Throws
        (Returns
          \<lparr> dc_timePoints = Num 2, dc_fluxPoints = Num 2, dc_timeRange = Num 1,
            dc_fluxMean = Num 1, dc_fluxMin = Num 1, dc_fluxMax = Num 1,
            dc_fluxStdDev = Num 0 \<rparr>) (Num (1 / 2))
        \<lparr> ld_time = [Num 1, Num 2], ld_flux = [Num 1, Num 1], ld_error = None \<rparr>
       = Resolved (getMockPrediction (Num (1 / 2))
           \<lparr> ld_time = [Num 1, Num 2], ld_flux = [Num 1, Num 1], ld_error = None \<rparr>)
   \<and> predict (Some corrupt_model) (Returns (replicate 50 (Num 1))) Throws
        (Returns
          \<lparr> dc_timePoints = Num 2, dc_fluxPoints = Num 2, dc_timeRange = Num 1,
            dc_fluxMean = Num 1, dc_fluxMin = Num 1, dc_fluxMax = Num 1,
            dc_fluxStdDev = Num 0 \<rparr>) (Num (1 / 2))
        \<lparr> ld_time = [Num 1, Num 2], ld_flux = [Num 1, Num 1], ld_error = None \<rparr>
       = Resolved
            \<lparr> mp_probability = NaN,
              mp_confidence = Math_min (NaN * Num (12 / 10)) (Num 1),
              mp_planetType = classifyPlanetType NaN 
                (\<lparr> ld_time = [Num 1, Num 2], ld_flux = [Num 1, Num 1], ld_error = None \<rparr>),
              mp_isHabitable = (Num (7 / 10) < NaN),
              mp_hasAtmosphere = (Num (6 / 10) < NaN),
              mp_hasWater = (Num (8 / 10) < NaN),
              mp_temperature = estimateTemperature NaN 
                (\<lparr> ld_time = [Num 1, Num 2], ld_flux = [Num 1, Num 1], ld_error = None \<rparr>),
              mp_radius = estimateRadius NaN 
                (\<lparr> ld_time = [Num 1, Num 2], ld_flux = [Num 1, Num 1], ld_error = None \<rparr>),
              mp_distanceFromStar = estimateDistance NaN 
                (\<lparr> ld_time = [Num 1, Num 2], ld_flux = [Num 1, Num 1], ld_error = None \<rparr>),
              mp_timePoints = Some (dc_timePoints 
                (\<lparr> dc_timePoints = Num 2, dc_fluxPoints = Num 2, dc_timeRange = Num 1,
            dc_fluxMean = Num 1, dc_fluxMin = Num 1, dc_fluxMax = Num 1,
            dc_fluxStdDev = Num 0 \<rparr>)),
              mp_fluxPoints = Some (dc_fluxPoints 
                (\<lparr> dc_timePoints = Num 2, dc_fluxPoints = Num 2, dc_timeRange = Num 1,
            dc_fluxMean = Num 1, dc_fluxMin = Num 1, dc_fluxMax = Num 1,
            dc_fluxStdDev = Num 0 \<rparr>)),
              mp_timeRange = Some (dc_timeRange 
                (\<lparr> dc_timePoints = Num 2, dc_fluxPoints = Num 2, dc_timeRange = Num 1,
            dc_fluxMean = Num 1, dc_fluxMin = Num 1, dc_fluxMax = Num 1,
            dc_fluxStdDev = Num 0 \<rparr>)),
              mp_fluxMean = Some (dc_fluxMean 
                (\<lparr> dc_timePoints = Num 2, dc_fluxPoints = Num 2, dc_timeRange = Num 1,
            dc_fluxMean = Num 1, dc_fluxMin = Num 1, dc_fluxMax = Num 1,
            dc_fluxStdDev = Num 0 \<rparr>)),
              mp_fluxMin = Some (dc_fluxMin 
                (\<lparr> dc_timePoints = Num 2, dc_fluxPoints = Num 2, dc_timeRange = Num 1,
            dc_fluxMean = Num 1, dc_fluxMin = Num 1, dc_fluxMax = Num 1,
            dc_fluxStdDev = Num 0 \<rparr>)),
              mp_fluxMax = Some (dc_fluxMax 
                (\<lparr> dc_timePoints = Num 2, dc_fluxPoints = Num 2, dc_timeRange = Num 1,
            dc_fluxMean = Num 1, dc_fluxMin = Num 1, dc_fluxMax = Num 1,
            dc_fluxStdDev = Num 0 \<rparr>)),
              mp_fluxStdDev = Some (dc_fluxStdDev 
                (\<lparr> dc_timePoints = Num 2, dc_fluxPoints = Num 2, dc_timeRange = Num 1,
            dc_fluxMean = Num 1, dc_fluxMin = Num 1, dc_fluxMax = Num 1,
            dc_fluxStdDev = Num 0 \<rparr>)) \<rparr>"
  using C7_predict_never_rejects
    [where model = "Some failing_model" and features = "Returns (replicate 50 (Num 1))"
       and ?m1.0 = failing_model and ?fs1.0 = "replicate 50 (Num 1)" and simulated = Throws
       and characteristics = "Returns
          \<lparr> dc_timePoints = Num 2, dc_fluxPoints = Num 2, dc_timeRange = Num 1,
            dc_fluxMean = Num 1, dc_fluxMin = Num 1, dc_fluxMax = Num 1,
            dc_fluxStdDev = Num 0 \<rparr>"
       and r = "Num (1 / 2)"
       and data = "\<lparr> ld_time = [Num 1, Num 2], ld_flux = [Num 1, Num 1], ld_error = None \<rparr>"
       and fs = "replicate 50 (Num 1)"
       and ?m2.0 = corrupt_model and ?fs2.0 = "replicate 50 (Num 1)" and pr = NaN
       and c = "\<lparr> dc_timePoints = Num 2, dc_fluxPoints = Num 2, dc_timeRange = Num 1,
            dc_fluxMean = Num 1, dc_fluxMin = Num 1, dc_fluxMax = Num 1,
            dc_fluxStdDev = Num 0 \<rparr>"
       and ?m3.0 = corrupt_model and ?fs3.0 = "replicate 50 (Num 1)"]
  by (simp add: failing_model_def corrupt_model_def)

end
